theory Spec2Isabelle
  imports Complex_Main "HOL-Library.AList" "HOL-Library.Multiset"
    "HOL-Library.Char_ord" "HOL-Library.List_Lexorder"
begin

section \<open>Values of the scripting runtime\<close>

text \<open>
  The script \<^verbatim>\<open>brand_vs_nonbrand_analysis.js\<close> reads report rows whose fields are
  JavaScript values. The fields the script coerces with \<^verbatim>\<open>Number(x) || 0\<close> are
  modelled as values of \<open>jsval\<close>. A JavaScript number is an exact rational here, or
  \<open>NaN\<close>: the rounding of IEEE doubles and the two infinities are outside the model.
  Strings are lists of 8-bit characters, read as ASCII.
\<close>

datatype jsnum = NaN | Num rat

datatype jsval = JUndefined | JNull | JBool bool | JNum jsnum | JStr string

text \<open>\<^verbatim>\<open>Number(v)\<close>. The conversion of a string to a number is the runtime's
  \<^verbatim>\<open>StringToNumber\<close>; it is a parameter \<open>s2n\<close> of the model.\<close>

fun Number :: "(string \<Rightarrow> jsnum) \<Rightarrow> jsval \<Rightarrow> jsnum" where
  "Number s2n JUndefined = NaN"
| "Number s2n JNull = Num 0"
| "Number s2n (JBool b) = Num (if b then 1 else 0)"
| "Number s2n (JNum n) = n"
| "Number s2n (JStr s) = s2n s"

text \<open>\<^verbatim>\<open>n || 0\<close> on a number: \<open>NaN\<close> and \<open>0\<close> are falsy.\<close>

fun orZero :: "jsnum \<Rightarrow> rat" where
  "orZero NaN = 0"
| "orZero (Num q) = q"

text \<open>Truthiness of a string-valued field that may be absent (\<open>None\<close> is
  \<^verbatim>\<open>undefined\<close> or \<^verbatim>\<open>null\<close>): only a non-empty string is truthy.\<close>

fun truthyStr :: "string option \<Rightarrow> bool" where
  "truthyStr None = False"
| "truthyStr (Some s) = (s \<noteq> [])"

section \<open>Metric vectors and period buckets\<close>

record metrics =
  impressions :: rat
  clicks :: rat
  cost :: rat
  conversions :: rat
  conversionsValue :: rat

text \<open>An object \<^verbatim>\<open>{branded, nonBranded}\<close> or \<^verbatim>\<open>{branded, nonBranded, blank}\<close>:
  the \<open>blank\<close> property is present only in objects built for the category source.\<close>

record bucket =
  branded :: metrics
  nonBranded :: metrics
  blank :: "metrics option"

text \<open>A \<^verbatim>\<open>periodData\<close> object: its own properties in insertion order, the keys
  distinct. Reading \<^verbatim>\<open>periodData[key]\<close> is \<open>map_of\<close>; assigning it is
  \<open>AList.update\<close>, which replaces the value of a present key in place and appends an
  absent one. Property names inherited from \<^verbatim>\<open>Object.prototype\<close> are not period keys
  and are outside the model.\<close>

type_synonym periodData = "(string \<times> bucket) list"

record channelResult =
  totals :: bucket
  periodData :: periodData

definition emptyMetrics :: metrics where
  "emptyMetrics = \<lparr>impressions = 0, clicks = 0, cost = 0, conversions = 0, conversionsValue = 0\<rparr>"

definition emptyPeriodData :: bucket where
  "emptyPeriodData = \<lparr>branded = emptyMetrics, nonBranded = emptyMetrics, blank = None\<rparr>"

definition emptyPeriodDataWithBlank :: bucket where
  "emptyPeriodDataWithBlank =
     \<lparr>branded = emptyMetrics, nonBranded = emptyMetrics, blank = Some emptyMetrics\<rparr>"

text \<open>The five \<^verbatim>\<open>target.f += rowMetrics.f\<close> lines that the script repeats wherever it
  accumulates a metric vector.\<close>

definition addMetrics :: "metrics \<Rightarrow> metrics \<Rightarrow> metrics" where
  "addMetrics t m =
     \<lparr>impressions = impressions t + impressions m,
      clicks = clicks t + clicks m,
      cost = cost t + cost m,
      conversions = conversions t + conversions m,
      conversionsValue = conversionsValue t + conversionsValue m\<rparr>"

text \<open>\<^verbatim>\<open>if (!periodData[periodKey]) periodData[periodKey] = emptyPeriodData();\<close> followed by
  the update of one of its two components. The bucket read is the stored one, or the fresh
  empty one when the key is absent; writing it back with \<open>AList.update\<close> appends the key
  in the second case.\<close>

definition addRowToPeriodData :: "periodData \<Rightarrow> string \<Rightarrow> bool \<Rightarrow> metrics \<Rightarrow> periodData" where
  "addRowToPeriodData pd periodKey isBrandedRow rowMetrics =
     (let p = (case map_of pd periodKey of None \<Rightarrow> emptyPeriodData | Some q \<Rightarrow> q)
      in AList.update periodKey
           (if isBrandedRow then p\<lparr>branded := addMetrics (branded p) rowMetrics\<rparr>
            else p\<lparr>nonBranded := addMetrics (nonBranded p) rowMetrics\<rparr>) pd)"

section \<open>Merging channel results\<close>

text \<open>\<^verbatim>\<open>mergeTotals(target, source)\<close> mutates \<open>target\<close>; the model returns it. The source
  object is never the target in the script, and the buckets it creates are fresh, so
  value semantics agrees with the mutation.\<close>

definition mergeTotals :: "bucket \<Rightarrow> bucket \<Rightarrow> bucket" where
  "mergeTotals target source =
     target\<lparr>branded := addMetrics (branded target) (branded source),
            nonBranded := addMetrics (nonBranded target) (nonBranded source)\<rparr>"

text \<open>One iteration of the \<^verbatim>\<open>for (key in source)\<close> loop of \<^verbatim>\<open>mergePeriodData\<close>.\<close>

definition mergePeriodEntry :: "string \<times> bucket \<Rightarrow> periodData \<Rightarrow> periodData" where
  "mergePeriodEntry e target =
     (let key = fst e;
          t = (case map_of target key of None \<Rightarrow> emptyPeriodData | Some q \<Rightarrow> q)
      in AList.update key (mergeTotals t (snd e)) target)"

definition mergePeriodData :: "periodData \<Rightarrow> periodData \<Rightarrow> periodData" where
  "mergePeriodData target source = fold mergePeriodEntry source target"

section \<open>The brand matcher\<close>

text \<open>
  \<^verbatim>\<open>buildBrandPatterns\<close> rewrites every token (a hyphen or a space becomes the
  text \<^verbatim>\<open>[-_ ]?\<close>, then every digit \<open>d\<close> becomes \<^verbatim>\<open> ?d\<close>), joins the results with
  \<^verbatim>\<open>|\<close> and hands the text to \<^verbatim>\<open>new RegExp(..., 'i')\<close>. The tokens are not escaped,
  so the regular-expression parser of the runtime reads whatever they contain. The model
  has a parser for the fragment the rewriting produces: literal characters, a character
  class of literal characters, the postfix \<^verbatim>\<open>?\<close> and the alternation \<^verbatim>\<open>|\<close>. A pattern
  text with another metacharacter is reported as \<open>OutsideFragment\<close>.
\<close>

datatype error = SyntaxError | InvalidSheet | OutsideFragment

datatype atom = Lit char | Cls "char list"

datatype piece = One atom | Opt atom

type_synonym regex = "piece list list"

definition digits :: "char list" where
  "digits = ''0123456789''"

text \<open>\<^verbatim>\<open>token.replace(/[- ]/g, '[-_ ]?')\<close> and \<^verbatim>\<open>.replace(/([0-9])/g, ' ?$1')\<close>.\<close>

definition replaceSeparators :: "string \<Rightarrow> string" where
  "replaceSeparators token =
     concat (map (\<lambda>c. if c = CHR ''-'' \<or> c = CHR '' '' then ''[-_ ]?'' else [c]) token)"

definition replaceDigits :: "string \<Rightarrow> string" where
  "replaceDigits s = concat (map (\<lambda>c. if c \<in> set digits then '' ?'' @ [c] else [c]) s)"

text \<open>\<^verbatim>\<open>Array.prototype.join\<close>.\<close>

fun join :: "string \<Rightarrow> string list \<Rightarrow> string" where
  "join sep [] = []"
| "join sep [x] = x"
| "join sep (x # y # xs) = x @ sep @ join sep (y # xs)"

definition metaChars :: "char list" where
  "metaChars = [CHR ''^'', CHR ''$'', CHR 0x5C, CHR ''.'', CHR ''*'', CHR ''+'', CHR ''?'',
     CHR ''('', CHR '')'', CHR ''['', CHR '']'', CHR ''{'', CHR ''}'', CHR ''|'']"

text \<open>The parser. \<open>cur\<close> holds the pieces of the current alternative, the last one
  first; \<open>alts\<close> the finished alternatives, the last one first. A \<^verbatim>\<open>?\<close> with nothing
  before it is the runtime's "nothing to repeat"; a class that is not closed is a syntax
  error too.\<close>

fun parseAlt :: "string \<Rightarrow> piece list \<Rightarrow> regex \<Rightarrow> error + regex"
  and parseClass :: "string \<Rightarrow> char list \<Rightarrow> piece list \<Rightarrow> regex \<Rightarrow> error + regex" where
  "parseAlt [] cur alts = Inr (rev (rev cur # alts))"
| "parseAlt (c # cs) cur alts =
     (if c = CHR ''|'' then parseAlt cs [] (rev cur # alts)
      else if c = CHR ''?'' then
        (case cur of
           [] \<Rightarrow> Inl SyntaxError
         | One a # r \<Rightarrow> parseAlt cs (Opt a # r) alts
         | Opt a # r \<Rightarrow> Inl OutsideFragment)
      else if c = CHR ''['' then parseClass cs [] cur alts
      else if c \<in> set metaChars then Inl OutsideFragment
      else parseAlt cs (One (Lit c) # cur) alts)"
| "parseClass [] acc cur alts = Inl SyntaxError"
| "parseClass (c # cs) acc cur alts =
     (if c = CHR '']'' then parseAlt cs (One (Cls (rev acc)) # cur) alts
      else if c = CHR 0x5C \<or> (c = CHR ''^'' \<and> acc = []) \<or> (c = CHR ''-'' \<and> acc \<noteq> [])
        then Inl OutsideFragment
      else parseClass cs (c # acc) cur alts)"

definition RegExp :: "string \<Rightarrow> error + regex" where
  "RegExp src = parseAlt src [] []"

text \<open>The flag \<^verbatim>\<open>i\<close>: both characters are canonicalised (upper case) before they are
  compared.\<close>

definition canon :: "char \<Rightarrow> char" where
  "canon c =
     (case map_of (zip ''abcdefghijklmnopqrstuvwxyz'' ''ABCDEFGHIJKLMNOPQRSTUVWXYZ'') c of
        None \<Rightarrow> c | Some u \<Rightarrow> u)"

fun atomMatches :: "atom \<Rightarrow> char \<Rightarrow> bool" where
  "atomMatches (Lit a) c = (canon a = canon c)"
| "atomMatches (Cls as) c = (canon c \<in> set (map canon as))"

text \<open>Does the alternative match a prefix of the text?\<close>

fun matchHere :: "piece list \<Rightarrow> string \<Rightarrow> bool" where
  "matchHere [] s = True"
| "matchHere (One a # ps) [] = False"
| "matchHere (One a # ps) (c # cs) = (atomMatches a c \<and> matchHere ps cs)"
| "matchHere (Opt a # ps) [] = matchHere ps []"
| "matchHere (Opt a # ps) (c # cs) = ((atomMatches a c \<and> matchHere ps cs) \<or> matchHere ps (c # cs))"

text \<open>\<^verbatim>\<open>p.test(text)\<close>: the pattern is not anchored, a match may start anywhere.\<close>

fun test :: "regex \<Rightarrow> string \<Rightarrow> bool" where
  "test re [] = list_ex (\<lambda>alt. matchHere alt []) re"
| "test re (c # cs) = (list_ex (\<lambda>alt. matchHere alt (c # cs)) re \<or> test re cs)"

definition buildBrandPatterns :: "string list \<Rightarrow> error + regex list" where
  "buildBrandPatterns BRAND_TOKENS =
     (case RegExp (join ''|'' (map (\<lambda>token. replaceDigits (replaceSeparators token)) BRAND_TOKENS)) of
        Inl e \<Rightarrow> Inl e
      | Inr pattern \<Rightarrow> Inr [pattern])"

text \<open>\<^verbatim>\<open>isBranded(text)\<close>, with the global \<^verbatim>\<open>BRAND_PATTERNS\<close> as an argument.\<close>

fun isBranded :: "regex list \<Rightarrow> jsval \<Rightarrow> bool" where
  "isBranded BRAND_PATTERNS (JStr s) = (s \<noteq> [] \<and> list_ex (\<lambda>p. test p s) BRAND_PATTERNS)"
| "isBranded BRAND_PATTERNS v = False"

section \<open>Report rows and their ingestion\<close>

text \<open>The configuration constants at the head of the script that the modelled functions
  read.\<close>

record config =
  SHEET_URL :: string
  BRAND_TOKENS :: "string list"
  TIME_GRANULARITY :: string
  INCLUDE_BY_CAMPAIGN_TYPE :: bool
  PMAX_TREAT_ALL_AS_NON_BRANDED :: bool
  INCLUDE_PMAX_CATEGORIES :: bool

text \<open>The \<^verbatim>\<open>metrics\<close> object of a row; a property that is missing is \<open>JUndefined\<close>.\<close>

record rawMetrics =
  impressionsRaw :: jsval
  clicksRaw :: jsval
  costMicros :: jsval
  conversionsRaw :: jsval
  conversionsValueRaw :: jsval

text \<open>The \<^verbatim>\<open>segments\<close> object of a row. The report delivers the targeting status as
  the name of an enum value; \<open>None\<close> is a property that is \<^verbatim>\<open>undefined\<close>.\<close>

record segmentsObj =
  searchTermTargetingStatus :: "string option"
  search_term_targeting_status :: "string option"
  week :: "string option"
  month :: "string option"

text \<open>A row of \<^verbatim>\<open>search_term_view\<close> or of \<^verbatim>\<open>campaign_search_term_view\<close>: the property
  \<open>termView\<close> is \<^verbatim>\<open>row.searchTermView\<close> in the first and
  \<^verbatim>\<open>row.campaignSearchTermView\<close> in the second.\<close>

record termRow =
  termView :: "string option option"
  segments :: "segmentsObj option"
  metricsObj :: "rawMetrics option"

definition noMetrics :: rawMetrics where
  "noMetrics = \<lparr>impressionsRaw = JUndefined, clicksRaw = JUndefined, costMicros = JUndefined,
     conversionsRaw = JUndefined, conversionsValueRaw = JUndefined\<rparr>"

text \<open>Lines 178 to 187 (and 267 to 276): \<^verbatim>\<open>const m = row.metrics || {}\<close>, the cost in
  micros divided by 1000000, and every other field through \<^verbatim>\<open>Number(x) || 0\<close>.\<close>

definition rowMetricsOf :: "(string \<Rightarrow> jsnum) \<Rightarrow> rawMetrics option \<Rightarrow> metrics" where
  "rowMetricsOf s2n mo =
     (let m = (case mo of None \<Rightarrow> noMetrics | Some x \<Rightarrow> x);
          cost = orZero (Number s2n (costMicros m));
          costActual = cost / 1000000
      in \<lparr>impressions = orZero (Number s2n (impressionsRaw m)),
          clicks = orZero (Number s2n (clicksRaw m)),
          cost = costActual,
          conversions = orZero (Number s2n (conversionsRaw m)),
          conversionsValue = orZero (Number s2n (conversionsValueRaw m))\<rparr>)"

text \<open>\<^verbatim>\<open>row.v && row.v.searchTerm ? row.v.searchTerm : ''\<close>. The outer option is the
  view object, the inner one its \<^verbatim>\<open>searchTerm\<close>.\<close>

fun textOf :: "string option option \<Rightarrow> string" where
  "textOf (Some (Some s)) = s"
| "textOf v = []"

text \<open>\<^verbatim>\<open>TIME_GRANULARITY === 'week' ? (row.segments && row.segments.week)
  : (row.segments && row.segments.month)\<close>.\<close>

definition periodKeyOf :: "config \<Rightarrow> segmentsObj option \<Rightarrow> string option" where
  "periodKeyOf cfg segs =
     (case segs of
        None \<Rightarrow> None
      | Some s \<Rightarrow> if TIME_GRANULARITY cfg = ''week'' then week s else month s)"

text \<open>The two branches that add a row's metrics to \<^verbatim>\<open>totals.branded\<close> or to
  \<^verbatim>\<open>totals.nonBranded\<close>.\<close>

definition addRowToTotals :: "bucket \<Rightarrow> bool \<Rightarrow> metrics \<Rightarrow> bucket" where
  "addRowToTotals t isBrandedRow rowMetrics =
     (if isBrandedRow then t\<lparr>branded := addMetrics (branded t) rowMetrics\<rparr>
      else t\<lparr>nonBranded := addMetrics (nonBranded t) rowMetrics\<rparr>)"

definition emptyResult :: channelResult where
  "emptyResult = \<lparr>totals = emptyPeriodData, periodData = []\<rparr>"

subsection \<open>Search and Shopping: \<^verbatim>\<open>processSearchTermView\<close>\<close>

text \<open>The body of the \<^verbatim>\<open>while (report.hasNext())\<close> loop. The element \<open>None\<close> of the row
  stream is a row whose decoding throws: the \<^verbatim>\<open>catch\<close> logs it and the loop goes on
  with the state as it was.\<close>

definition searchTermRow ::
  "(string \<Rightarrow> jsnum) \<Rightarrow> config \<Rightarrow> regex list \<Rightarrow> termRow option \<Rightarrow> channelResult \<Rightarrow> channelResult" where
  "searchTermRow s2n cfg pats ro st =
     (case ro of
        None \<Rightarrow> st
      | Some row \<Rightarrow>
          (let text = textOf (termView row);
               rowMetrics = rowMetricsOf s2n (metricsObj row)
           in case periodKeyOf cfg (segments row) of
                None \<Rightarrow> st
              | Some periodKey \<Rightarrow>
                  if periodKey = [] then st
                  else
                    (let isB = isBranded pats (JStr text)
                     in \<lparr>totals = addRowToTotals (totals st) isB rowMetrics,
                         periodData = addRowToPeriodData (periodData st) periodKey isB rowMetrics\<rparr>)))"

definition processSearchTermView ::
  "(string \<Rightarrow> jsnum) \<Rightarrow> config \<Rightarrow> regex list \<Rightarrow> termRow option list \<Rightarrow> channelResult" where
  "processSearchTermView s2n cfg pats report = fold (searchTermRow s2n cfg pats) report emptyResult"

subsection \<open>Performance Max: \<^verbatim>\<open>processCampaignSearchTermView\<close>\<close>

definition toUpperCase :: "string \<Rightarrow> string" where
  "toUpperCase s = map canon s"

text \<open>\<^verbatim>\<open>isExcludedTargetingStatus(segments)\<close>; \<^verbatim>\<open>String(raw)\<close> of a string is the
  string.\<close>

definition isExcludedTargetingStatus :: "segmentsObj option \<Rightarrow> bool" where
  "isExcludedTargetingStatus segs =
     (case segs of
        None \<Rightarrow> False
      | Some sg \<Rightarrow>
          (let raw = (if searchTermTargetingStatus sg \<noteq> None then searchTermTargetingStatus sg
                      else search_term_targeting_status sg)
           in case raw of
                None \<Rightarrow> False
              | Some r \<Rightarrow>
                  (let s = toUpperCase r in s = ''EXCLUDED'' \<or> s = ''ADDED_EXCLUDED'')))"

text \<open>The loop body. The debug counters (\<^verbatim>\<open>DEBUG_PMAX_ROWS\<close> is \<open>0\<close>) only feed the log
  and are left out.\<close>

definition pmaxRow ::
  "(string \<Rightarrow> jsnum) \<Rightarrow> config \<Rightarrow> regex list \<Rightarrow> termRow option \<Rightarrow> channelResult \<Rightarrow> channelResult" where
  "pmaxRow s2n cfg pats ro st =
     (case ro of
        None \<Rightarrow> st
      | Some row \<Rightarrow>
          (let excluded = isExcludedTargetingStatus (segments row)
           in if excluded then st
              else
                (let text = textOf (termView row);
                     rowMetrics = rowMetricsOf s2n (metricsObj row)
                 in case periodKeyOf cfg (segments row) of
                      None \<Rightarrow> st
                    | Some periodKey \<Rightarrow>
                        if periodKey = [] then st
                        else
                          (let isB = (if PMAX_TREAT_ALL_AS_NON_BRANDED cfg then False
                                      else isBranded pats (JStr text))
                           in \<lparr>totals = addRowToTotals (totals st) isB rowMetrics,
                               periodData =
                                 addRowToPeriodData (periodData st) periodKey isB rowMetrics\<rparr>))))"

definition processCampaignSearchTermView ::
  "(string \<Rightarrow> jsnum) \<Rightarrow> config \<Rightarrow> regex list \<Rightarrow> termRow option list \<Rightarrow> channelResult" where
  "processCampaignSearchTermView s2n cfg pats report = fold (pmaxRow s2n cfg pats) report emptyResult"

section \<open>Dates\<close>

text \<open>
  A \<^verbatim>\<open>Date\<close> is modelled at the granularity of a day: the number of days since
  1970-01-01, in one time zone for the script and the account. The time of day and the
  conversion between time zones are outside the model. The calendar is the proleptic
  Gregorian one of the runtime; months are counted from year 0 (\<open>mi = 12 * year + month\<close>,
  the month from 0 to 11).
\<close>

type_synonym date = int

definition isLeapYear :: "int \<Rightarrow> bool" where
  "isLeapYear y = (y mod 4 = 0 \<and> (y mod 100 \<noteq> 0 \<or> y mod 400 = 0))"

definition daysInMonth :: "int \<Rightarrow> int \<Rightarrow> int" where
  "daysInMonth y m =
     (if m = 1 then (if isLeapYear y then 29 else 28)
      else if m = 3 \<or> m = 5 \<or> m = 8 \<or> m = 10 then 30 else 31)"

definition monthLength :: "int \<Rightarrow> int" where
  "monthLength mi = daysInMonth (mi div 12) (mi mod 12)"

definition epochMonth :: int where
  "epochMonth = 1970 * 12"

lemma monthLength_bounds: "28 \<le> monthLength mi \<and> monthLength mi \<le> 31"
  by (simp add: monthLength_def daysInMonth_def)

text \<open>The day number of the first day of a month.\<close>

function monthStartDay :: "int \<Rightarrow> date" where
  "monthStartDay mi =
     (if mi = epochMonth then 0
      else if epochMonth < mi then monthStartDay (mi - 1) + monthLength (mi - 1)
      else monthStartDay (mi + 1) - monthLength mi)"
  by pat_completeness auto
termination
  by (relation "measure (\<lambda>mi. nat \<bar>mi - epochMonth\<bar>)") auto

declare monthStartDay.simps [simp del]

text \<open>The month that holds the day \<open>n\<close> days after the first day of month \<open>mi\<close>, and the
  offset of the day in that month.\<close>

function civilFrom :: "int \<Rightarrow> int \<Rightarrow> int \<times> int" where
  "civilFrom mi n =
     (if n < 0 then civilFrom (mi - 1) (n + monthLength (mi - 1))
      else if monthLength mi \<le> n then civilFrom (mi + 1) (n - monthLength mi)
      else (mi, n))"
  by pat_completeness auto
termination
proof (relation "measure (\<lambda>(mi, n). if n < 0 then nat (- n) + 31 else nat n)")
  show "wf (measure (\<lambda>(mi, n). if n < 0 then nat (- n) + 31 else nat n))" by simp
next
  fix mi n :: int
  assume "n < 0"
  then show "((mi - 1, n + monthLength (mi - 1)), mi, n)
       \<in> measure (\<lambda>(mi, n). if n < 0 then nat (- n) + 31 else nat n)"
    using monthLength_bounds [of "mi - 1"] by auto
next
  fix mi n :: int
  assume "\<not> n < 0" "monthLength mi \<le> n"
  then show "((mi + 1, n - monthLength mi), mi, n)
       \<in> measure (\<lambda>(mi, n). if n < 0 then nat (- n) + 31 else nat n)"
    using monthLength_bounds [of mi] by auto
qed

declare civilFrom.simps [simp del]

definition monthIndex :: "date \<Rightarrow> int" where
  "monthIndex d = fst (civilFrom epochMonth d)"

definition getFullYear :: "date \<Rightarrow> int" where
  "getFullYear d = monthIndex d div 12"

definition getMonth :: "date \<Rightarrow> int" where
  "getMonth d = monthIndex d mod 12"

definition getDate :: "date \<Rightarrow> int" where
  "getDate d = snd (civilFrom epochMonth d) + 1"

text \<open>1970-01-01 was a Thursday; Sunday is 0.\<close>

definition getDay :: "date \<Rightarrow> int" where
  "getDay d = (d + 4) mod 7"

text \<open>\<^verbatim>\<open>new Date(year, month, day)\<close>: a month outside 0 to 11 and a day outside the
  month carry over, as the runtime's \<^verbatim>\<open>MakeDay\<close> does.\<close>

definition newDate :: "int \<Rightarrow> int \<Rightarrow> int \<Rightarrow> date" where
  "newDate y m d = monthStartDay (y * 12 + m) + d - 1"

definition setDate :: "date \<Rightarrow> int \<Rightarrow> date" where
  "setDate dt d = newDate (getFullYear dt) (getMonth dt) d"

definition setMonth :: "date \<Rightarrow> int \<Rightarrow> date" where
  "setMonth dt m = newDate (getFullYear dt) m (getDate dt)"

lemma monthStartDay_next: "monthStartDay (mi + 1) = monthStartDay mi + monthLength mi"
proof (cases "epochMonth < mi + 1")
  case True
  then show ?thesis by (subst monthStartDay.simps) simp
next
  case False
  then have "mi < epochMonth" by simp
  then show ?thesis by (subst (2) monthStartDay.simps) simp
qed

lemma monthStartDay_prev: "monthStartDay (mi - 1) = monthStartDay mi - monthLength (mi - 1)"
  using monthStartDay_next [of "mi - 1"] by simp

lemma civilFrom_sound:
  "monthStartDay (fst (civilFrom mi n)) + snd (civilFrom mi n) = monthStartDay mi + n
   \<and> 0 \<le> snd (civilFrom mi n) \<and> snd (civilFrom mi n) < monthLength (fst (civilFrom mi n))"
proof (induction mi n rule: civilFrom.induct)
  case (1 mi n)
  show ?case
  proof (cases "n < 0")
    case True
    with 1(1) show ?thesis
      by (subst (1 2 3 4 5) civilFrom.simps) (simp add: monthStartDay_prev)
  next
    case False
    show ?thesis
    proof (cases "monthLength mi \<le> n")
      case True
      with False 1(2) show ?thesis
        by (subst (1 2 3 4 5) civilFrom.simps) (simp add: monthStartDay_next)
    next
      case inside: False
      with False show ?thesis
        by (subst (1 2 3 4 5) civilFrom.simps) simp
    qed
  qed
qed

lemma monthStartDay_epoch: "monthStartDay epochMonth = 0"
  by (subst monthStartDay.simps) simp

text \<open>A day is the first day of its month plus its day of the month less one.\<close>

lemma date_decompose: "monthStartDay (monthIndex d) + getDate d - 1 = d"
  using civilFrom_sound [of epochMonth d]
  by (simp add: monthIndex_def getDate_def monthStartDay_epoch)

lemma getDate_bounds: "1 \<le> getDate d \<and> getDate d \<le> monthLength (monthIndex d)"
  using civilFrom_sound [of epochMonth d]
  by (simp add: monthIndex_def getDate_def)

lemma year_month_index: "getFullYear d * 12 + getMonth d = monthIndex d"
  by (simp add: getFullYear_def getMonth_def)

lemma setDate_shift: "setDate d (getDate d + k) = d + k"
  using date_decompose [of d] by (simp add: setDate_def newDate_def year_month_index)

lemma setMonth_next: "setMonth d (getMonth d + 1) = d + monthLength (monthIndex d)"
proof -
  have idx: "getFullYear d * 12 + (getMonth d + 1) = monthIndex d + 1"
    using year_month_index [of d] by simp
  show ?thesis
    unfolding setMonth_def newDate_def idx monthStartDay_next
    using date_decompose [of d] by simp
qed

section \<open>Period windows: \<^verbatim>\<open>getPeriodRanges\<close>\<close>

text \<open>An element of \<^verbatim>\<open>periods\<close>. The script stores the three components formatted
  (\<^verbatim>\<open>yyyy-MM-dd\<close>, and \<^verbatim>\<open>yyyy-MM\<close> for the key of a month); the model keeps the days
  and formats them where they are used.\<close>

record period =
  key :: date
  periodStart :: date
  periodEnd :: date

text \<open>The \<^verbatim>\<open>while (current <= endDate)\<close> loop of the weekly branch.\<close>

function weekLoop :: "date \<Rightarrow> date \<Rightarrow> period list" where
  "weekLoop current endDate =
     (if current \<le> endDate then
        (let weekStart = current;
             weekEnd = setDate current (getDate current + 6)
         in \<lparr>key = weekStart, periodStart = weekStart,
              periodEnd = (if weekEnd > endDate then endDate else weekEnd)\<rparr>
            # weekLoop (setDate current (getDate current + 7)) endDate)
      else [])"
  by pat_completeness auto
termination
  by (relation "measure (\<lambda>(current, endDate). nat (endDate - current + 1))")
    (auto simp: setDate_shift)

declare weekLoop.simps [simp del]

text \<open>The loop of the monthly branch.\<close>

function monthLoop :: "date \<Rightarrow> date \<Rightarrow> date \<Rightarrow> period list" where
  "monthLoop current startDate endDate =
     (if current \<le> endDate then
        (let monthStart = current;
             monthEnd = newDate (getFullYear current) (getMonth current + 1) 0
         in \<lparr>key = monthStart,
              periodStart = (if monthStart < startDate then startDate else monthStart),
              periodEnd = (if monthEnd > endDate then endDate else monthEnd)\<rparr>
            # monthLoop (setMonth current (getMonth current + 1)) startDate endDate)
      else [])"
  by pat_completeness auto
termination
proof (relation "measure (\<lambda>(current, startDate, endDate). nat (endDate - current + 1))")
  show "wf (measure (\<lambda>(current, startDate, endDate). nat (endDate - current + 1)))"
    by simp
next
  fix current startDate endDate :: date and x xa
  assume "current \<le> endDate"
  then show "((setMonth current (getMonth current + 1), startDate, endDate),
              current, startDate, endDate)
       \<in> measure (\<lambda>(current, startDate, endDate). nat (endDate - current + 1))"
    using monthLength_bounds [of "monthIndex current"] by (simp add: setMonth_next)
qed

declare monthLoop.simps [simp del]

text \<open>\<^verbatim>\<open>getPeriodRanges\<close>, from the resolved \<^verbatim>\<open>startDate\<close> and \<^verbatim>\<open>endDate\<close> (the
  configured pair, or today and today less \<^verbatim>\<open>LOOKBACK_DAYS\<close>).\<close>

definition getPeriodRanges :: "config \<Rightarrow> date \<Rightarrow> date \<Rightarrow> period list" where
  "getPeriodRanges cfg startDate endDate =
     (if TIME_GRANULARITY cfg = ''week'' then
        (let current = startDate;
             dayOfWeek = getDay current;
             diff = (if dayOfWeek = 0 then - 6 else 1 - dayOfWeek)
         in weekLoop (setDate current (getDate current + diff)) endDate)
      else monthLoop (newDate (getFullYear startDate) (getMonth startDate) 1) startDate endDate)"

section \<open>Performance Max categories: \<^verbatim>\<open>processCampaignSearchTermInsight\<close>\<close>

datatype category = CBranded | CNonBranded | CBlank

text \<open>A row of \<^verbatim>\<open>campaign_search_term_insight\<close>: the insight object with its
  \<^verbatim>\<open>categoryLabel\<close>, and the metrics object (which has no cost).\<close>

record insightRow =
  campaignSearchTermInsight :: "string option option"
  insightMetrics :: "rawMetrics option"

definition whiteSpace :: "char list" where
  "whiteSpace = [CHR 0x09, CHR 0x0A, CHR 0x0B, CHR 0x0C, CHR 0x0D, CHR '' '']"

text \<open>\<^verbatim>\<open>String.prototype.trim\<close> on ASCII text.\<close>

definition trim :: "string \<Rightarrow> string" where
  "trim s = rev (dropWhile (\<lambda>c. c \<in> set whiteSpace) (rev (dropWhile (\<lambda>c. c \<in> set whiteSpace) s)))"

text \<open>Lines 431 to 438.\<close>

definition categoryOf :: "regex list \<Rightarrow> string \<Rightarrow> category" where
  "categoryOf pats categoryLabel =
     (if categoryLabel = [] \<or> trim categoryLabel = [] then CBlank
      else if isBranded pats (JStr categoryLabel) then CBranded
      else CNonBranded)"

text \<open>Lines 422 to 428: the cost is the constant 0.\<close>

definition insightMetricsOf :: "(string \<Rightarrow> jsnum) \<Rightarrow> rawMetrics option \<Rightarrow> metrics" where
  "insightMetricsOf s2n mo =
     (let m = (case mo of None \<Rightarrow> noMetrics | Some x \<Rightarrow> x)
      in \<lparr>impressions = orZero (Number s2n (impressionsRaw m)),
          clicks = orZero (Number s2n (clicksRaw m)),
          cost = 0,
          conversions = orZero (Number s2n (conversionsRaw m)),
          conversionsValue = orZero (Number s2n (conversionsValueRaw m))\<rparr>)"

text \<open>\<^verbatim>\<open>obj[category]\<close> followed by updates of the metric vector found there. When the
  object has no \<^verbatim>\<open>blank\<close> property and the category is \<^verbatim>\<open>'blank'\<close>, the script reads a
  property of \<^verbatim>\<open>undefined\<close> and throws: the result is \<open>None\<close>.\<close>

definition updateCategory :: "category \<Rightarrow> (metrics \<Rightarrow> metrics) \<Rightarrow> bucket \<Rightarrow> bucket option" where
  "updateCategory c f b =
     (case c of
        CBranded \<Rightarrow> Some (b\<lparr>branded := f (branded b)\<rparr>)
      | CNonBranded \<Rightarrow> Some (b\<lparr>nonBranded := f (nonBranded b)\<rparr>)
      | CBlank \<Rightarrow> (case blank b of None \<Rightarrow> None | Some x \<Rightarrow> Some (b\<lparr>blank := Some (f x)\<rparr>)))"

text \<open>Lines 441 to 444: the four fields added to \<^verbatim>\<open>totals[category]\<close>; the cost of the
  totals is not touched.\<close>

definition addNoCost :: "metrics \<Rightarrow> metrics \<Rightarrow> metrics" where
  "addNoCost rowMetrics t =
     t\<lparr>impressions := impressions t + impressions rowMetrics,
       clicks := clicks t + clicks rowMetrics,
       conversions := conversions t + conversions rowMetrics,
       conversionsValue := conversionsValue t + conversionsValue rowMetrics\<rparr>"

text \<open>\<^verbatim>\<open>addRowToPeriodDataWithBlank\<close>. \<open>None\<close> is the exception; it can only be thrown
  for a key that was present, so that the object is then unchanged.\<close>

definition addRowToPeriodDataWithBlank ::
  "periodData \<Rightarrow> string \<Rightarrow> category \<Rightarrow> metrics \<Rightarrow> periodData option" where
  "addRowToPeriodDataWithBlank pd periodKey c rowMetrics =
     (let p = (case map_of pd periodKey of None \<Rightarrow> emptyPeriodDataWithBlank | Some q \<Rightarrow> q)
      in case updateCategory c (\<lambda>t. addMetrics t rowMetrics) p of
           None \<Rightarrow> None
         | Some p' \<Rightarrow> Some (AList.update periodKey p' pd))"

text \<open>The body of the inner \<^verbatim>\<open>while\<close> loop for one row. \<open>Inl\<close> is an exception, with
  the state it leaves behind; \<open>Inr\<close> the state after the row.\<close>

definition insightRowStep ::
  "(string \<Rightarrow> jsnum) \<Rightarrow> regex list \<Rightarrow> string \<Rightarrow> insightRow \<Rightarrow> channelResult
     \<Rightarrow> channelResult + channelResult" where
  "insightRowStep s2n pats periodKey row st =
     (let categoryLabel = textOf (campaignSearchTermInsight row);
          rowMetrics = insightMetricsOf s2n (insightMetrics row);
          c = categoryOf pats categoryLabel
      in case updateCategory c (addNoCost rowMetrics) (totals st) of
           None \<Rightarrow> Inl st
         | Some t \<Rightarrow>
             (case addRowToPeriodDataWithBlank (periodData st) periodKey c rowMetrics of
                None \<Rightarrow> Inl (st\<lparr>totals := t\<rparr>)
              | Some pd \<Rightarrow> Inr \<lparr>totals = t, periodData = pd\<rparr>))"

text \<open>One sub-query, inside its \<^verbatim>\<open>try\<close>: the rows that the report delivers are
  processed in order; an exception ends the sub-query and is logged.\<close>

fun insightRows ::
  "(string \<Rightarrow> jsnum) \<Rightarrow> regex list \<Rightarrow> string \<Rightarrow> insightRow list \<Rightarrow> channelResult
     \<Rightarrow> channelResult" where
  "insightRows s2n pats periodKey [] st = st"
| "insightRows s2n pats periodKey (row # rows) st =
     (case insightRowStep s2n pats periodKey row st of
        Inl thrown \<Rightarrow> thrown
      | Inr st' \<Rightarrow> insightRows s2n pats periodKey rows st')"

text \<open>The queries that the script sends with \<^verbatim>\<open>AdsApp.search\<close>.\<close>

datatype query =
    SearchTermViewQuery string
  | CampaignSearchTermViewQuery
  | CampaignQuery
  | InsightQuery string string string

text \<open>What the report source answers: the rows of each query.\<close>

record reports =
  searchTermViewRows :: "string \<Rightarrow> termRow option list"
  campaignSearchTermViewRows :: "termRow option list"
  campaignRows :: "string option list"
  insightReport :: "string \<Rightarrow> period \<Rightarrow> insightRow list"

text \<open>The identifiers of the campaign listing: \<^verbatim>\<open>row.campaign && row.campaign.id\<close> must
  be truthy.\<close>

definition campaignIdsOf :: "string option list \<Rightarrow> string list" where
  "campaignIdsOf rows = concat (map (\<lambda>r. case r of None \<Rightarrow> [] | Some i \<Rightarrow> if i = [] then [] else [i]) rows)"

definition periodKeyString :: "(date \<Rightarrow> string \<Rightarrow> string) \<Rightarrow> config \<Rightarrow> period \<Rightarrow> string" where
  "periodKeyString formatDate cfg p =
     formatDate (key p) (if TIME_GRANULARITY cfg = ''week'' then ''yyyy-MM-dd'' else ''yyyy-MM'')"

text \<open>\<^verbatim>\<open>processCampaignSearchTermInsight\<close>. \<open>formatDate\<close> stands for
  \<^verbatim>\<open>Utilities.formatDate\<close> in the account's time zone.\<close>

definition processCampaignSearchTermInsight ::
  "(string \<Rightarrow> jsnum) \<Rightarrow> (date \<Rightarrow> string \<Rightarrow> string) \<Rightarrow> config \<Rightarrow> regex list \<Rightarrow> reports
     \<Rightarrow> date \<Rightarrow> date \<Rightarrow> channelResult" where
  "processCampaignSearchTermInsight s2n formatDate cfg pats w startDate endDate =
     (let campaignIds = campaignIdsOf (campaignRows w)
      in if campaignIds = [] then emptyResult
         else
           (let periodRanges = getPeriodRanges cfg startDate endDate
            in fold (\<lambda>p. fold (\<lambda>campaignId.
                        insightRows s2n pats (periodKeyString formatDate cfg p)
                          (insightReport w campaignId p)) campaignIds)
                 periodRanges \<lparr>totals = emptyPeriodDataWithBlank, periodData = []\<rparr>))"

text \<open>The queries it sends, in order.\<close>

definition insightQueries ::
  "(date \<Rightarrow> string \<Rightarrow> string) \<Rightarrow> config \<Rightarrow> reports \<Rightarrow> date \<Rightarrow> date \<Rightarrow> query list" where
  "insightQueries formatDate cfg w startDate endDate =
     (let campaignIds = campaignIdsOf (campaignRows w)
      in CampaignQuery #
         (if campaignIds = [] then []
          else concat (map (\<lambda>p. map (\<lambda>campaignId.
                  InsightQuery campaignId (formatDate (periodStart p) ''yyyy-MM-dd'')
                    (formatDate (periodEnd p) ''yyyy-MM-dd'')) campaignIds)
                (getPeriodRanges cfg startDate endDate))))"

section \<open>Derived ratios and the raw tables\<close>

text \<open>A cell of a table handed to the sheet. A division by zero does not throw in
  the runtime, it yields an infinity or \<^verbatim>\<open>NaN\<close>: the cell \<open>NonFinite\<close>.\<close>

datatype cell = Txt string | Val rat | NonFinite | Undefined

definition quotient :: "rat \<Rightarrow> rat \<Rightarrow> cell" where
  "quotient a b = (if b = 0 then NonFinite else Val (a / b))"

text \<open>\<^verbatim>\<open>formatPeriodLabel\<close>; \<open>formatMonth\<close> stands for the lines that render a month key
  with \<^verbatim>\<open>Utilities.formatDate\<close>.\<close>

definition formatPeriodLabel :: "(string \<Rightarrow> string) \<Rightarrow> config \<Rightarrow> string \<Rightarrow> string" where
  "formatPeriodLabel formatMonth cfg periodKey =
     (if TIME_GRANULARITY cfg = ''week'' then ''w/c '' @ periodKey else formatMonth periodKey)"

definition rawHeader :: "cell list" where
  "rawHeader = map Txt [''Period'', ''Segment'', ''Impressions'', ''Clicks'', ''Cost'',
     ''Conversions'', ''Conversion Value'', ''CPA'', ''ROAS'']"

text \<open>The two rows that \<^verbatim>\<open>buildRawTabRows\<close> pushes for one period (lines 511 to 518).\<close>

definition rawRowsOf :: "string \<Rightarrow> bucket \<Rightarrow> cell list list" where
  "rawRowsOf label p =
     (let cpaB = (if conversions (branded p) > 0
                  then quotient (cost (branded p)) (conversions (branded p)) else Val 0);
          cpaN = (if conversions (nonBranded p) > 0
                  then quotient (cost (nonBranded p)) (conversions (nonBranded p)) else Val 0);
          roasB = (if cost (branded p) > 0
                   then quotient (conversionsValue (branded p)) (cost (branded p)) else Val 0);
          roasN = (if cost (nonBranded p) > 0
                   then quotient (conversionsValue (nonBranded p)) (cost (nonBranded p)) else Val 0)
      in [[Txt label, Txt ''Branded'', Val (impressions (branded p)), Val (clicks (branded p)),
           Val (cost (branded p)), Val (conversions (branded p)),
           Val (conversionsValue (branded p)), cpaB, roasB],
          [Txt label, Txt ''Non-branded'', Val (impressions (nonBranded p)),
           Val (clicks (nonBranded p)), Val (cost (nonBranded p)), Val (conversions (nonBranded p)),
           Val (conversionsValue (nonBranded p)), cpaN, roasN]])"

text \<open>\<^verbatim>\<open>Object.keys(periodData).sort()\<close> and the rows of every period in that order.\<close>

definition buildRawTabRows :: "(string \<Rightarrow> string) \<Rightarrow> periodData \<Rightarrow> cell list list" where
  "buildRawTabRows label pd =
     rawHeader #
     concat (map (\<lambda>periodKey. case map_of pd periodKey of
                                  None \<Rightarrow> []
                                | Some p \<Rightarrow> rawRowsOf (label periodKey) p)
               (sort (map fst pd)))"

text \<open>\<^verbatim>\<open>p.branded[valueType]\<close>: a metric vector has no property \<^verbatim>\<open>cpa\<close> or \<^verbatim>\<open>roas\<close>.\<close>

definition metricField :: "string \<Rightarrow> metrics \<Rightarrow> cell" where
  "metricField valueType m =
     (if valueType = ''impressions'' then Val (impressions m)
      else if valueType = ''clicks'' then Val (clicks m)
      else if valueType = ''cost'' then Val (cost m)
      else if valueType = ''conversions'' then Val (conversions m)
      else if valueType = ''conversionsValue'' then Val (conversionsValue m)
      else Undefined)"

text \<open>The row that \<^verbatim>\<open>buildChartDataRows\<close> pushes for one period (lines 603 to 614).\<close>

definition chartRowOf :: "string \<Rightarrow> string \<Rightarrow> bucket \<Rightarrow> cell list" where
  "chartRowOf valueType label p =
     (let valB = metricField valueType (branded p);
          valN = metricField valueType (nonBranded p)
      in if valueType = ''cpa'' then
           [Txt label,
            (if conversions (branded p) > 0
             then quotient (cost (branded p)) (conversions (branded p)) else Val 0),
            (if conversions (nonBranded p) > 0
             then quotient (cost (nonBranded p)) (conversions (nonBranded p)) else Val 0)]
         else if valueType = ''roas'' then
           [Txt label,
            (if cost (branded p) > 0
             then quotient (conversionsValue (branded p)) (cost (branded p)) else Val 0),
            (if cost (nonBranded p) > 0
             then quotient (conversionsValue (nonBranded p)) (cost (nonBranded p)) else Val 0)]
         else [Txt label, valB, valN])"

definition buildChartDataRows :: "(string \<Rightarrow> string) \<Rightarrow> periodData \<Rightarrow> string \<Rightarrow> cell list list" where
  "buildChartDataRows label pd valueType =
     concat (map (\<lambda>periodKey. case map_of pd periodKey of
                                  None \<Rightarrow> []
                                | Some p \<Rightarrow> [chartRowOf valueType (label periodKey) p])
               (sort (map fst pd)))"

text \<open>\<^verbatim>\<open>buildRawTabRowsNoCost\<close>: the rows of one period, the third one only when the
  bucket has a \<^verbatim>\<open>blank\<close> property.\<close>

definition noCostRow :: "string \<Rightarrow> string \<Rightarrow> metrics \<Rightarrow> cell list" where
  "noCostRow label segment m =
     [Txt label, Txt segment, Val (impressions m), Val (clicks m), Val (conversions m),
      Val (conversionsValue m)]"

definition buildRawTabRowsNoCost :: "(string \<Rightarrow> string) \<Rightarrow> periodData \<Rightarrow> cell list list" where
  "buildRawTabRowsNoCost label pd =
     map Txt [''Period'', ''Segment'', ''Impressions'', ''Clicks'', ''Conversions'',
       ''Conversion Value''] #
     concat (map (\<lambda>periodKey. case map_of pd periodKey of
                    None \<Rightarrow> []
                  | Some p \<Rightarrow>
                      [noCostRow (label periodKey) ''Branded'' (branded p),
                       noCostRow (label periodKey) ''Non-branded'' (nonBranded p)] @
                      (case blank p of
                         None \<Rightarrow> []
                       | Some b \<Rightarrow> [noCostRow (label periodKey) ''Blank'' b]))
               (sort (map fst pd)))"

section \<open>The sheet identifier and \<^verbatim>\<open>main\<close>\<close>

definition idChars :: "char list" where
  "idChars = ''abcdefghijklmnopqrstuvwxyzABCDEFGHIJKLMNOPQRSTUVWXYZ0123456789-_''"

text \<open>\<^verbatim>\<open>sheetIdentifier.match(/\/d\/([a-zA-Z0-9-_]+)/)\<close>: the leftmost \<^verbatim>\<open>/d/\<close> that is
  followed by an identifier character, and the longest run of such characters after it.\<close>

fun matchSheetId :: "string \<Rightarrow> string option" where
  "matchSheetId [] = None"
| "matchSheetId (c # cs) =
     (if take 3 (c # cs) = ''/d/'' \<and> takeWhile (\<lambda>x. x \<in> set idChars) (drop 3 (c # cs)) \<noteq> []
      then Some (takeWhile (\<lambda>x. x \<in> set idChars) (drop 3 (c # cs)))
      else matchSheetId cs)"

definition getSheetId :: "string \<Rightarrow> error + string" where
  "getSheetId sheetIdentifier =
     (if sheetIdentifier = [] \<or> CHR ''/'' \<notin> set sheetIdentifier then Inr sheetIdentifier
      else case matchSheetId sheetIdentifier of
             None \<Rightarrow> Inl InvalidSheet
           | Some i \<Rightarrow> Inr i)"

text \<open>What \<^verbatim>\<open>main\<close> does to the outside, in order: a report query, the opening of the
  spreadsheet, the writing of a raw table into a tab, the drawing of the charts of a view,
  the reordering of the tabs.\<close>

datatype effect =
    Search query
  | OpenById string
  | InfoTab
  | RawTab string "cell list list"
  | ChartsTab string periodData
  | ReorderTabs

record views =
  combined :: channelResult
  byType :: "(string \<times> channelResult) list option"
  pmaxCategoriesData :: "channelResult option"

text \<open>\<^verbatim>\<open>writeInfoAndRawTabs\<close>, \<^verbatim>\<open>writePmaxCategoriesTab\<close>, \<^verbatim>\<open>writeAllCharts\<close>,
  \<^verbatim>\<open>writePmaxCategoriesCharts\<close> and \<^verbatim>\<open>reorderTabs\<close>, as the effects they have. A
  table with no row but the header is not written.\<close>

definition rawTab :: "string \<Rightarrow> cell list list \<Rightarrow> effect list" where
  "rawTab name rows = (if length rows > 1 then [RawTab name rows] else [])"

definition writeAll :: "(string \<Rightarrow> string) \<Rightarrow> config \<Rightarrow> views \<Rightarrow> effect list" where
  "writeAll label cfg v =
     (let channels = (case byType v of
                        None \<Rightarrow> []
                      | Some bt \<Rightarrow> if INCLUDE_BY_CAMPAIGN_TYPE cfg then bt else [])
      in [InfoTab] @ rawTab ''Raw - Combined'' (buildRawTabRows label (periodData (combined v))) @
         concat (map (\<lambda>(channel, d). rawTab (''Raw - '' @ channel) (buildRawTabRows label (periodData d)))
                   channels) @
         (case pmaxCategoriesData v of
            None \<Rightarrow> []
          | Some d \<Rightarrow>
              if INCLUDE_PMAX_CATEGORIES cfg
              then rawTab ''Raw - Pmax Categories'' (buildRawTabRowsNoCost label (periodData d))
              else []) @
         [ChartsTab ''Charts - Combined'' (periodData (combined v))] @
         map (\<lambda>(channel, d). ChartsTab (''Charts - '' @ channel) (periodData d)) channels @
         (case pmaxCategoriesData v of
            None \<Rightarrow> []
          | Some d \<Rightarrow>
              if INCLUDE_PMAX_CATEGORIES cfg
              then [ChartsTab ''Charts - Pmax Categories'' (periodData d)]
              else []) @
         [ReorderTabs])"

text \<open>The views that \<^verbatim>\<open>main\<close> builds from the three channel results (lines 919 to
  943).\<close>

definition buildViews ::
  "config \<Rightarrow> channelResult \<Rightarrow> channelResult \<Rightarrow> channelResult \<Rightarrow> channelResult option \<Rightarrow> views" where
  "buildViews cfg searchData shoppingData pmaxData categories =
     \<lparr>combined =
        \<lparr>totals = mergeTotals (mergeTotals (mergeTotals emptyPeriodData (totals searchData))
                     (totals shoppingData)) (totals pmaxData),
         periodData = mergePeriodData (mergePeriodData (mergePeriodData [] (periodData searchData))
                        (periodData shoppingData)) (periodData pmaxData)\<rparr>,
      byType = (if INCLUDE_BY_CAMPAIGN_TYPE cfg
                then Some [(''Search'', searchData), (''Pmax'', pmaxData), (''Shopping'', shoppingData)]
                else None),
      pmaxCategoriesData = categories\<rparr>"

text \<open>\<^verbatim>\<open>main\<close>: the effects in the order in which the script causes them, and the
  exception it rethrows or the views it has written. The report queries are taken to
  succeed; \<open>startDate\<close> and \<open>endDate\<close> are the resolved date range.\<close>

definition main ::
  "(string \<Rightarrow> jsnum) \<Rightarrow> (date \<Rightarrow> string \<Rightarrow> string) \<Rightarrow> (string \<Rightarrow> string) \<Rightarrow> config \<Rightarrow> reports
     \<Rightarrow> date \<Rightarrow> date \<Rightarrow> effect list \<times> (error + views)" where
  "main s2n formatDate label cfg w startDate endDate =
     (case buildBrandPatterns (BRAND_TOKENS cfg) of
        Inl e \<Rightarrow> ([], Inl e)
      | Inr pats \<Rightarrow>
          (let searchData = processSearchTermView s2n cfg pats (searchTermViewRows w ''SEARCH'');
               shoppingData = processSearchTermView s2n cfg pats (searchTermViewRows w ''SHOPPING'');
               pmaxData = processCampaignSearchTermView s2n cfg pats (campaignSearchTermViewRows w);
               fetched = [Search (SearchTermViewQuery ''SEARCH''),
                          Search (SearchTermViewQuery ''SHOPPING''),
                          Search CampaignSearchTermViewQuery];
               categories =
                 (if INCLUDE_PMAX_CATEGORIES cfg
                  then Some (processCampaignSearchTermInsight s2n formatDate cfg pats w startDate endDate)
                  else None);
               fetchedCategories =
                 (if INCLUDE_PMAX_CATEGORIES cfg
                  then map Search (insightQueries formatDate cfg w startDate endDate)
                  else []);
               v = buildViews cfg searchData shoppingData pmaxData categories
           in case getSheetId (SHEET_URL cfg) of
                Inl e \<Rightarrow> (fetched @ fetchedCategories, Inl e)
              | Inr sheetId \<Rightarrow>
                  (fetched @ fetchedCategories @ [OpenById sheetId] @ writeAll label cfg v, Inr v)))"

section \<open>Notions used in the statements\<close>

text \<open>The predicates and views with which the properties below are stated. None of them is
  a function of the script.\<close>

text \<open>A row that the Performance Max loop does not drop for its targeting status.\<close>

definition keptRow :: "termRow option \<Rightarrow> bool" where
  "keptRow ro = (case ro of None \<Rightarrow> True | Some row \<Rightarrow> \<not> isExcludedTargetingStatus (segments row))"

text \<open>The number that \<^verbatim>\<open>Number\<close> reads in a raw field is not negative.\<close>

definition nonNegativeRaw :: "(string \<Rightarrow> jsnum) \<Rightarrow> jsval \<Rightarrow> bool" where
  "nonNegativeRaw s2n v = (case Number s2n v of NaN \<Rightarrow> True | Num q \<Rightarrow> 0 \<le> q)"

text \<open>The cells that the script computes for a metric vector: the cost per conversion
  and the return on spend.\<close>

definition cpaCell :: "metrics \<Rightarrow> cell" where
  "cpaCell b = (if conversions b > 0 then quotient (cost b) (conversions b) else Val 0)"

definition roasCell :: "metrics \<Rightarrow> cell" where
  "roasCell b = (if cost b > 0 then quotient (conversionsValue b) (cost b) else Val 0)"

text \<open>The \<^verbatim>\<open>blank\<close> property of the bucket of a period, if the period and the property
  exist.\<close>

definition blankAt :: "periodData \<Rightarrow> string \<Rightarrow> metrics option" where
  "blankAt pd k = (case map_of pd k of None \<Rightarrow> None | Some p \<Rightarrow> blank p)"

text \<open>The effect is a report query.\<close>

definition isSearch :: "effect \<Rightarrow> bool" where
  "isSearch x = (case x of Search q \<Rightarrow> True | _ \<Rightarrow> False)"

text \<open>The metric vector of a category in a bucket; the blank one may be absent.\<close>

fun slot :: "category \<Rightarrow> bucket \<Rightarrow> metrics option" where
  "slot CBranded b = Some (branded b)"
| "slot CNonBranded b = Some (nonBranded b)"
| "slot CBlank b = blank b"

text \<open>The objects that \<^verbatim>\<open>processCampaignSearchTermInsight\<close> works on have the blank
  component everywhere.\<close>

definition hasBlank :: "channelResult \<Rightarrow> bool" where
  "hasBlank st = (blank (totals st) \<noteq> None \<and> list_all (\<lambda>e. blank (snd e) \<noteq> None) (periodData st))"

text \<open>The bucket of a period as \<^verbatim>\<open>addRowToPeriodDataWithBlank\<close> finds it: the stored
  one, or the fresh one it creates.\<close>

definition bucketAt :: "periodData \<Rightarrow> string \<Rightarrow> bucket" where
  "bucketAt pd k = (case map_of pd k of None \<Rightarrow> emptyPeriodDataWithBlank | Some q \<Rightarrow> q)"












text \<open>The Monday on or before a day (\<^verbatim>\<open>getDay\<close> is 1 on a Monday).\<close>

definition mondayOnOrBefore :: "date \<Rightarrow> date" where
  "mondayOnOrBefore d = d - (getDay d + 6) mod 7"

section \<open>Example inputs\<close>

text \<open>Concrete inputs, on which the properties below are instantiated.\<close>

definition sampleMetrics :: metrics where
  "sampleMetrics = \<lparr>impressions = 100, clicks = 10, cost = 5, conversions = 1, conversionsValue = 20\<rparr>"

definition sampleBucket :: bucket where
  "sampleBucket = \<lparr>branded = sampleMetrics, nonBranded = emptyMetrics, blank = None\<rparr>"

text \<open>An excluded row with the status in lower case, the configuration of the script, and
  a reading of numeric strings for the examples: it agrees with the runtime on the empty
  string and on unsigned decimal integers, the only strings the examples contain.\<close>

definition excludedExample :: termRow where
  "excludedExample =
     \<lparr>termView = Some (Some ''foodsisters tee''),
      segments = Some \<lparr>searchTermTargetingStatus = Some ''added_excluded'',
                       search_term_targeting_status = None, week = None, month = Some ''2024-01''\<rparr>,
      metricsObj = Some \<lparr>impressionsRaw = JNum (Num 100), clicksRaw = JNum (Num 10),
                         costMicros = JNum (Num 5000000), conversionsRaw = JNum (Num 1),
                         conversionsValueRaw = JNum (Num 20)\<rparr>\<rparr>"

definition exampleConfig :: config where
  "exampleConfig =
     \<lparr>SHEET_URL = ''https://docs.google.com/spreadsheets/d/1ysIP5kMNCuBI5uVzf6V-Xw6knCCSGMCEXw1B5i8zURY/edit?usp=sharing'',
      BRAND_TOKENS = [''foodsisters'', ''foodsister''],
      TIME_GRANULARITY = ''month'',
      INCLUDE_BY_CAMPAIGN_TYPE = True,
      PMAX_TREAT_ALL_AS_NON_BRANDED = False,
      INCLUDE_PMAX_CATEGORIES = True\<rparr>"

definition integerLiteral :: "string \<Rightarrow> jsnum" where
  "integerLiteral s =
     (if s = [] then Num 0
      else if list_all (\<lambda>c. c \<in> set digits) s
      then Num (of_nat (foldl (\<lambda>n c. 10 * n + (of_char c - 48)) 0 s))
      else NaN)"

text \<open>Metrics objects with a negative number, with numeric strings, with \<^verbatim>\<open>NaN\<close> and
  with a missing field; a bucket with 4 conversions at a cost of 40.\<close>

definition negativeExample :: rawMetrics where
  "negativeExample = noMetrics\<lparr>impressionsRaw := JNum (Num (- 5)), costMicros := JStr ''5000000''\<rparr>"

definition stringExample :: rawMetrics where
  "stringExample = \<lparr>impressionsRaw = JStr ''100'', clicksRaw = JNum (Num 10),
     costMicros = JStr ''5000000'', conversionsRaw = JNum NaN, conversionsValueRaw = JUndefined\<rparr>"

definition ratioExample :: bucket where
  "ratioExample =
     \<lparr>branded = \<lparr>impressions = 100, clicks = 10, cost = 40, conversions = 4, conversionsValue = 20\<rparr>,
      nonBranded = emptyMetrics, blank = None\<rparr>"

text \<open>The three rows of the end-to-end scenario, a category row with a blank label, and
  the reports that deliver them.\<close>

definition mkRow ::
  "string \<Rightarrow> string \<Rightarrow> jsval \<Rightarrow> jsval \<Rightarrow> jsval \<Rightarrow> jsval \<Rightarrow> jsval \<Rightarrow> termRow option" where
  "mkRow periodKey term i c cm cv v =
     Some \<lparr>termView = Some (Some term),
           segments = Some \<lparr>searchTermTargetingStatus = None, search_term_targeting_status = None,
                            week = None, month = Some periodKey\<rparr>,
           metricsObj = Some \<lparr>impressionsRaw = i, clicksRaw = c, costMicros = cm,
                              conversionsRaw = cv, conversionsValueRaw = v\<rparr>\<rparr>"

definition scenarioRows :: "termRow option list" where
  "scenarioRows =
     [mkRow ''2024-01'' ''foodsisters tee'' (JStr ''100'') (JStr ''10'') (JStr ''5000000'')
        (JNum (Num 1)) (JNum (Num 20)),
      mkRow ''2024-01'' ''red tee'' (JStr ''200'') (JStr ''20'') (JStr ''10000000'')
        (JNum (Num 2)) (JNum (Num 40)),
      mkRow ''2024-02'' ''foodsister hat'' (JStr ''50'') (JStr ''5'') (JStr ''2500000'')
        (JNum (Num 0)) (JNum (Num 0))]"

definition blankCategoryRow :: insightRow where
  "blankCategoryRow =
     \<lparr>campaignSearchTermInsight = Some (Some ''  ''),
      insightMetrics = Some \<lparr>impressionsRaw = JStr ''7'', clicksRaw = JStr ''3'',
        costMicros = JStr ''9000000'', conversionsRaw = JNum (Num 1),
        conversionsValueRaw = JNum (Num 2)\<rparr>\<rparr>"

definition exampleReports :: reports where
  "exampleReports =
     \<lparr>searchTermViewRows = (\<lambda>channelType. if channelType = ''SEARCH'' then scenarioRows else []),
      campaignSearchTermViewRows = [Some excludedExample],
      campaignRows = [Some ''123''],
      insightReport = (\<lambda>campaignId p. [blankCategoryRow])\<rparr>"

text \<open>The patterns that \<^verbatim>\<open>buildBrandPatterns\<close> compiles from the configured tokens,
  the views of the example run, and a configuration whose sheet identifier does not
  parse.\<close>

definition brandPatterns :: "regex list" where
  "brandPatterns =
     [[map (\<lambda>c. One (Lit c)) ''foodsisters'', map (\<lambda>c. One (Lit c)) ''foodsister'']]"

definition exampleViews :: views where
  "exampleViews =
     buildViews exampleConfig
       (processSearchTermView integerLiteral exampleConfig brandPatterns scenarioRows)
       (processSearchTermView integerLiteral exampleConfig brandPatterns [])
       (processCampaignSearchTermView integerLiteral exampleConfig brandPatterns [Some excludedExample])
       (Some (processCampaignSearchTermInsight integerLiteral (\<lambda>d p. p) exampleConfig brandPatterns
          exampleReports 19737 19792))"

definition badSheetConfig :: config where
  "badSheetConfig = exampleConfig\<lparr>SHEET_URL := ''sheets/abc''\<rparr>"

definition blankCategoryMetrics :: metrics where
  "blankCategoryMetrics =
     \<lparr>impressions = 7, clicks = 3, cost = 0, conversions = 1, conversionsValue = 2\<rparr>"



definition weekConfig :: config where
  "weekConfig = exampleConfig\<lparr>TIME_GRANULARITY := ''week''\<rparr>"

section \<open>Properties of the merge\<close>

lemma addMetrics_empty_left: "addMetrics emptyMetrics m = m"
  by (simp add: addMetrics_def emptyMetrics_def)


lemma addMetrics_commute: "addMetrics a b = addMetrics b a"
  by (simp add: addMetrics_def)

lemma addMetrics_assoc: "addMetrics (addMetrics a b) c = addMetrics a (addMetrics b c)"
  by (simp add: addMetrics_def)

lemma map_of_mergePeriodEntry:
  "map_of (mergePeriodEntry e target) =
     (map_of target)(fst e \<mapsto>
        mergeTotals (case map_of target (fst e) of None \<Rightarrow> emptyPeriodData | Some q \<Rightarrow> q) (snd e))"
  by (simp add: mergePeriodEntry_def Let_def update_conv')

lemma keys_mergePeriodEntry:
  "fst ` set (mergePeriodEntry e target) = insert (fst e) (fst ` set target)"
  by (simp add: mergePeriodEntry_def Let_def dom_update)

lemma keys_mergePeriodData:
  "fst ` set (mergePeriodData target source) = fst ` set target \<union> fst ` set source"
  unfolding mergePeriodData_def
  by (induction source arbitrary: target) (auto simp: keys_mergePeriodEntry)



text \<open>A key that the source does not have keeps its bucket.\<close>

lemma map_of_mergePeriodData_other:
  "k \<notin> fst ` set source \<Longrightarrow> map_of (mergePeriodData target source) k = map_of target k"
  unfolding mergePeriodData_def
  by (induction source arbitrary: target) (auto simp: map_of_mergePeriodEntry)

text \<open>A key of the source (whose keys are distinct, as those of an object are) ends with
  the source's bucket merged into the target's, or into a fresh empty bucket.\<close>

lemma map_of_mergePeriodData_source:
  "distinct (map fst source) \<Longrightarrow> map_of source k = Some sb \<Longrightarrow>
   map_of (mergePeriodData target source) k =
     Some (mergeTotals (case map_of target k of None \<Rightarrow> emptyPeriodData | Some q \<Rightarrow> q) sb)"
  unfolding mergePeriodData_def
proof (induction source arbitrary: target)
  case Nil
  then show ?case by simp
next
  case (Cons e source)
  show ?case
  proof (cases "fst e = k")
    case True
    with Cons.prems have sb: "snd e = sb" and notin: "k \<notin> fst ` set source"
      by auto
    have "map_of (fold mergePeriodEntry source (mergePeriodEntry e target)) k =
          map_of (mergePeriodEntry e target) k"
      using map_of_mergePeriodData_other [OF notin] by (simp add: mergePeriodData_def)
    then show ?thesis
      using True sb by (simp add: map_of_mergePeriodEntry)
  next
    case False
    with Cons.prems have "distinct (map fst source)" "map_of source k = Some sb"
      by auto
    from Cons.IH [OF this] False show ?thesis
      by (simp add: map_of_mergePeriodEntry)
  qed
qed

section \<open>Merging never drops a period\<close>

lemma mergeTotals_empty:
  "mergeTotals emptyPeriodData sb = \<lparr>branded = branded sb, nonBranded = nonBranded sb, blank = None\<rparr>"
  by (simp add: mergeTotals_def emptyPeriodData_def addMetrics_empty_left)

text \<open>
  C6. After \<^verbatim>\<open>mergePeriodData(target, source)\<close> the keys of the target are the keys of
  both operands: no period of either is dropped. For a key that only the source has, the
  target holds the source's branded and non-branded metrics accumulated into a fresh
  zero bucket (\<^verbatim>\<open>emptyPeriodData()\<close>).
\<close>

theorem mergePeriodData_keeps_every_period:
  "fst ` set (mergePeriodData target source) = fst ` set target \<union> fst ` set source \<and>
   (distinct (map fst source) \<longrightarrow> map_of source k = Some sb \<longrightarrow> map_of target k = None \<longrightarrow>
      map_of (mergePeriodData target source) k = Some (mergeTotals emptyPeriodData sb) \<and>
      mergeTotals emptyPeriodData sb =
        \<lparr>branded = branded sb, nonBranded = nonBranded sb, blank = None\<rparr>)"
proof (intro conjI impI)
  show "fst ` set (mergePeriodData target source) = fst ` set target \<union> fst ` set source"
    by (rule keys_mergePeriodData)
next
  assume "distinct (map fst source)" "map_of source k = Some sb" "map_of target k = None"
  then show "map_of (mergePeriodData target source) k = Some (mergeTotals emptyPeriodData sb)"
    by (simp add: map_of_mergePeriodData_source)
next
  show "mergeTotals emptyPeriodData sb =
      \<lparr>branded = branded sb, nonBranded = nonBranded sb, blank = None\<rparr>"
    by (rule mergeTotals_empty)
qed

theorem mergePeriodData_keeps_every_period_witness:
  "fst ` set (mergePeriodData [(''2024-01'', sampleBucket)] [(''2024-02'', sampleBucket)]) =
     {''2024-01'', ''2024-02''} \<and>
   map_of (mergePeriodData [(''2024-01'', sampleBucket)] [(''2024-02'', sampleBucket)]) ''2024-02'' =
     Some \<lparr>branded = sampleMetrics, nonBranded = emptyMetrics, blank = None\<rparr>"
  using mergePeriodData_keeps_every_period
    [of "[(''2024-01'', sampleBucket)]" "[(''2024-02'', sampleBucket)]" "''2024-02''" sampleBucket]
  by (simp add: sampleBucket_def insert_commute)

section \<open>Excluded Performance Max rows\<close>

lemma keys_addRowToPeriodData:
  "fst ` set (addRowToPeriodData pd k b m) = insert k (fst ` set pd)"
  by (simp add: addRowToPeriodData_def Let_def dom_update)

lemma pmaxRow_excluded:
  "isExcludedTargetingStatus (segments row) \<Longrightarrow> pmaxRow s2n cfg pats (Some row) st = st"
  by (simp add: pmaxRow_def)

lemma fold_pmaxRow_filter:
  "fold (pmaxRow s2n cfg pats) (filter keptRow report) st = fold (pmaxRow s2n cfg pats) report st"
proof (induction report arbitrary: st)
  case Nil
  then show ?case by simp
next
  case (Cons ro report)
  show ?case
  proof (cases "keptRow ro")
    case True
    then show ?thesis using Cons.IH by simp
  next
    case False
    then obtain row where "ro = Some row" "isExcludedTargetingStatus (segments row)"
      by (auto simp: keptRow_def split: option.splits)
    then show ?thesis using False Cons.IH by (simp add: pmaxRow_excluded)
  qed
qed

lemma keys_pmaxRow:
  "fst ` set (periodData (pmaxRow s2n cfg pats ro st)) \<subseteq>
     fst ` set (periodData st) \<union>
     {k. \<exists>row. ro = Some row \<and> \<not> isExcludedTargetingStatus (segments row) \<and>
          periodKeyOf cfg (segments row) = Some k}"
  by (auto simp: pmaxRow_def Let_def keys_addRowToPeriodData split: option.splits if_splits)

lemma keys_fold_pmaxRow:
  "fst ` set (periodData (fold (pmaxRow s2n cfg pats) report st)) \<subseteq>
     fst ` set (periodData st) \<union>
     {k. \<exists>row. Some row \<in> set report \<and> \<not> isExcludedTargetingStatus (segments row) \<and>
          periodKeyOf cfg (segments row) = Some k}"
proof (induction report arbitrary: st)
  case Nil
  then show ?case by simp
next
  case (Cons ro report)
  show ?case
    using Cons.IH [of "pmaxRow s2n cfg pats ro st"] keys_pmaxRow [of s2n cfg pats ro st]
    by (simp add: subset_iff) blast
qed

text \<open>
  C2. A Performance Max row whose targeting status is, in upper case, \<^verbatim>\<open>EXCLUDED\<close> or
  \<^verbatim>\<open>ADDED_EXCLUDED\<close> leaves the totals and the period data as they were, whatever the
  value of \<^verbatim>\<open>PMAX_TREAT_ALL_AS_NON_BRANDED\<close>: the result of the whole report is the result
  of the report without these rows, and a period all of whose rows are excluded has no
  entry in the period data, not even a zero one.
\<close>

theorem excluded_rows_are_discarded:
  "(isExcludedTargetingStatus (segments row) \<longrightarrow>
      pmaxRow s2n (cfg\<lparr>PMAX_TREAT_ALL_AS_NON_BRANDED := flag\<rparr>) pats (Some row) st = st) \<and>
   processCampaignSearchTermView s2n (cfg\<lparr>PMAX_TREAT_ALL_AS_NON_BRANDED := flag\<rparr>) pats report =
     processCampaignSearchTermView s2n (cfg\<lparr>PMAX_TREAT_ALL_AS_NON_BRANDED := flag\<rparr>) pats
       (filter keptRow report) \<and>
   ((\<forall>r. Some r \<in> set report \<and> periodKeyOf cfg (segments r) = Some k \<longrightarrow>
         isExcludedTargetingStatus (segments r)) \<longrightarrow>
      map_of (periodData (processCampaignSearchTermView s2n
        (cfg\<lparr>PMAX_TREAT_ALL_AS_NON_BRANDED := flag\<rparr>) pats report)) k = None)"
proof (intro conjI impI)
  assume "isExcludedTargetingStatus (segments row)"
  then show "pmaxRow s2n (cfg\<lparr>PMAX_TREAT_ALL_AS_NON_BRANDED := flag\<rparr>) pats (Some row) st = st"
    by (rule pmaxRow_excluded)
next
  show "processCampaignSearchTermView s2n (cfg\<lparr>PMAX_TREAT_ALL_AS_NON_BRANDED := flag\<rparr>) pats report =
     processCampaignSearchTermView s2n (cfg\<lparr>PMAX_TREAT_ALL_AS_NON_BRANDED := flag\<rparr>) pats
       (filter keptRow report)"
    by (simp add: processCampaignSearchTermView_def fold_pmaxRow_filter)
next
  let ?cfg = "cfg\<lparr>PMAX_TREAT_ALL_AS_NON_BRANDED := flag\<rparr>"
  assume all: "\<forall>r. Some r \<in> set report \<and> periodKeyOf cfg (segments r) = Some k \<longrightarrow>
         isExcludedTargetingStatus (segments r)"
  have same: "periodKeyOf ?cfg s = periodKeyOf cfg s" for s
    by (simp add: periodKeyOf_def split: option.splits)
  have "k \<notin> fst ` set (periodData (fold (pmaxRow s2n ?cfg pats) report emptyResult))"
    using keys_fold_pmaxRow [of s2n ?cfg pats report emptyResult] all
    by (auto simp: emptyResult_def same)
  then show "map_of (periodData (processCampaignSearchTermView s2n ?cfg pats report)) k = None"
    by (simp add: processCampaignSearchTermView_def map_of_eq_None_iff)
qed

lemma excludedExample_excluded: "isExcludedTargetingStatus (segments excludedExample)"
  by (simp add: excludedExample_def isExcludedTargetingStatus_def toUpperCase_def canon_def)

theorem excluded_rows_are_discarded_witness:
  "isExcludedTargetingStatus (segments excludedExample) \<and>
   pmaxRow integerLiteral (exampleConfig\<lparr>PMAX_TREAT_ALL_AS_NON_BRANDED := True\<rparr>) []
     (Some excludedExample) emptyResult = emptyResult \<and>
   map_of (periodData (processCampaignSearchTermView integerLiteral
     (exampleConfig\<lparr>PMAX_TREAT_ALL_AS_NON_BRANDED := True\<rparr>) [] [Some excludedExample])) ''2024-01'' = None"
proof -
  note t = excluded_rows_are_discarded [where row = excludedExample and ?s2n = integerLiteral
      and cfg = exampleConfig and flag = True and pats = "[]" and st = emptyResult
      and report = "[Some excludedExample]" and k = "''2024-01''"]
  have ex: "isExcludedTargetingStatus (segments excludedExample)"
    by (rule excludedExample_excluded)
  have a: "pmaxRow integerLiteral (exampleConfig\<lparr>PMAX_TREAT_ALL_AS_NON_BRANDED := True\<rparr>) []
     (Some excludedExample) emptyResult = emptyResult"
    using t ex by blast
  have h: "\<forall>r. Some r \<in> set [Some excludedExample] \<and>
         periodKeyOf exampleConfig (segments r) = Some ''2024-01'' \<longrightarrow>
         isExcludedTargetingStatus (segments r)"
    using ex by simp
  have b: "map_of (periodData (processCampaignSearchTermView integerLiteral
     (exampleConfig\<lparr>PMAX_TREAT_ALL_AS_NON_BRANDED := True\<rparr>) [] [Some excludedExample])) ''2024-01'' = None"
    using t h by blast
  show ?thesis using ex a b by blast
qed

section \<open>The empty token list\<close>

lemma buildBrandPatterns_Nil: "buildBrandPatterns [] = Inr [[[]]]"
  by (simp add: buildBrandPatterns_def RegExp_def)

lemma test_empty_alternative: "test [[]] s"
  by (cases s) simp_all

lemma isBranded_empty_pattern: "s \<noteq> [] \<Longrightarrow> isBranded [[[]]] (JStr s)"
  by (simp add: test_empty_alternative)

text \<open>
  C1. With an empty token list the pattern text is empty, and the regular expression of the
  empty text matches at the start of every string: \<^verbatim>\<open>isBranded\<close> is true of every
  non-empty text, here of \<^verbatim>\<open>red tee\<close>. The claim says that it is false of every text.
\<close>

theorem empty_tokens_match_everything:
  "\<exists>pats. buildBrandPatterns [] = Inr pats \<and> isBranded pats (JStr ''red tee'')"
  by (simp add: buildBrandPatterns_Nil)

section \<open>Coercion of the metric fields\<close>

lemma orZero_nonNegative: "nonNegativeRaw s2n v \<Longrightarrow> 0 \<le> orZero (Number s2n v)"
  by (cases "Number s2n v") (simp_all add: nonNegativeRaw_def)

text \<open>C9, as stated, fails: a negative number passes through \<^verbatim>\<open>Number(x) || 0\<close>
  unchanged.\<close>

theorem coercion_keeps_sign_counterexample:
  "impressions (rowMetricsOf integerLiteral (Some negativeExample)) = - 5 \<and>
   \<not> 0 \<le> impressions (rowMetricsOf integerLiteral (Some negativeExample))"
  by (simp add: rowMetricsOf_def negativeExample_def noMetrics_def)

text \<open>
  C9, amended. The coercion of a row's metrics returns a metric vector for every row. A
  field that is missing (also when the whole metrics object is missing) or whose
  \<^verbatim>\<open>Number\<close> is \<^verbatim>\<open>NaN\<close> becomes 0; a field whose \<^verbatim>\<open>Number\<close> is a number keeps that
  number, sign included, so the result is non-negative whenever the numbers in the row
  are; the cost is the coerced \<^verbatim>\<open>costMicros\<close> divided by 1000000.
\<close>

theorem row_coercion:
  "rowMetricsOf s2n None = emptyMetrics \<and>
   rowMetricsOf s2n (Some noMetrics) = emptyMetrics \<and>
   impressions (rowMetricsOf s2n (Some m)) = orZero (Number s2n (impressionsRaw m)) \<and>
   clicks (rowMetricsOf s2n (Some m)) = orZero (Number s2n (clicksRaw m)) \<and>
   cost (rowMetricsOf s2n (Some m)) = orZero (Number s2n (costMicros m)) / 1000000 \<and>
   conversions (rowMetricsOf s2n (Some m)) = orZero (Number s2n (conversionsRaw m)) \<and>
   conversionsValue (rowMetricsOf s2n (Some m)) = orZero (Number s2n (conversionsValueRaw m)) \<and>
   (Number s2n v = NaN \<longrightarrow> orZero (Number s2n v) = 0) \<and>
   (Number s2n v = Num q \<longrightarrow> orZero (Number s2n v) = q) \<and>
   (nonNegativeRaw s2n (impressionsRaw m) \<and> nonNegativeRaw s2n (clicksRaw m) \<and>
    nonNegativeRaw s2n (costMicros m) \<and> nonNegativeRaw s2n (conversionsRaw m) \<and>
    nonNegativeRaw s2n (conversionsValueRaw m) \<longrightarrow>
      0 \<le> impressions (rowMetricsOf s2n (Some m)) \<and> 0 \<le> clicks (rowMetricsOf s2n (Some m)) \<and>
      0 \<le> cost (rowMetricsOf s2n (Some m)) \<and> 0 \<le> conversions (rowMetricsOf s2n (Some m)) \<and>
      0 \<le> conversionsValue (rowMetricsOf s2n (Some m)))"
proof -
  have none: "rowMetricsOf s2n None = emptyMetrics" "rowMetricsOf s2n (Some noMetrics) = emptyMetrics"
    by (simp_all add: rowMetricsOf_def noMetrics_def emptyMetrics_def)
  have fields:
    "impressions (rowMetricsOf s2n (Some m)) = orZero (Number s2n (impressionsRaw m))"
    "clicks (rowMetricsOf s2n (Some m)) = orZero (Number s2n (clicksRaw m))"
    "cost (rowMetricsOf s2n (Some m)) = orZero (Number s2n (costMicros m)) / 1000000"
    "conversions (rowMetricsOf s2n (Some m)) = orZero (Number s2n (conversionsRaw m))"
    "conversionsValue (rowMetricsOf s2n (Some m)) = orZero (Number s2n (conversionsValueRaw m))"
    by (simp_all add: rowMetricsOf_def)
  have nan: "Number s2n v = NaN \<longrightarrow> orZero (Number s2n v) = 0"
    and num: "Number s2n v = Num q \<longrightarrow> orZero (Number s2n v) = q"
    by simp_all
  have pos: "nonNegativeRaw s2n (impressionsRaw m) \<and> nonNegativeRaw s2n (clicksRaw m) \<and>
    nonNegativeRaw s2n (costMicros m) \<and> nonNegativeRaw s2n (conversionsRaw m) \<and>
    nonNegativeRaw s2n (conversionsValueRaw m) \<longrightarrow>
      0 \<le> impressions (rowMetricsOf s2n (Some m)) \<and> 0 \<le> clicks (rowMetricsOf s2n (Some m)) \<and>
      0 \<le> cost (rowMetricsOf s2n (Some m)) \<and> 0 \<le> conversions (rowMetricsOf s2n (Some m)) \<and>
      0 \<le> conversionsValue (rowMetricsOf s2n (Some m))"
    unfolding fields by (simp add: orZero_nonNegative)
  show ?thesis
    using none fields nan num pos by blast
qed

theorem row_coercion_witness:
  "rowMetricsOf integerLiteral (Some stringExample) =
     \<lparr>impressions = 100, clicks = 10, cost = 5, conversions = 0, conversionsValue = 0\<rparr> \<and>
   Number integerLiteral (conversionsRaw stringExample) = NaN \<and>
   Number integerLiteral (impressionsRaw stringExample) = Num 100 \<and>
   nonNegativeRaw integerLiteral (costMicros stringExample)"
proof -
  note t = row_coercion [of integerLiteral stringExample]
  have n: "Number integerLiteral (impressionsRaw stringExample) = Num 100"
    "Number integerLiteral (clicksRaw stringExample) = Num 10"
    "Number integerLiteral (costMicros stringExample) = Num 5000000"
    "Number integerLiteral (conversionsRaw stringExample) = NaN"
    "Number integerLiteral (conversionsValueRaw stringExample) = NaN"
    by (simp_all add: stringExample_def integerLiteral_def digits_def)
  have "impressions (rowMetricsOf integerLiteral (Some stringExample)) = 100"
    "clicks (rowMetricsOf integerLiteral (Some stringExample)) = 10"
    "cost (rowMetricsOf integerLiteral (Some stringExample)) = 5"
    "conversions (rowMetricsOf integerLiteral (Some stringExample)) = 0"
    "conversionsValue (rowMetricsOf integerLiteral (Some stringExample)) = 0"
    using t [of "conversionsRaw stringExample" 0] by (simp_all add: n)
  then have "rowMetricsOf integerLiteral (Some stringExample) =
     \<lparr>impressions = 100, clicks = 10, cost = 5, conversions = 0, conversionsValue = 0\<rparr>"
    by (cases "rowMetricsOf integerLiteral (Some stringExample)") simp
  then show ?thesis
    by (simp add: n nonNegativeRaw_def)
qed

section \<open>Derived ratios\<close>

lemma rawRowsOf_in_buildRawTabRows:
  "map_of pd k = Some p \<Longrightarrow> set (rawRowsOf (label k) p) \<subseteq> set (buildRawTabRows label pd)"
proof -
  assume p: "map_of pd k = Some p"
  then have "k \<in> set (sort (map fst pd))"
    by (auto dest: map_of_SomeD intro: rev_image_eqI)
  with p show ?thesis
    by (fastforce simp: buildRawTabRows_def)
qed

lemma chartRowOf_in_buildChartDataRows:
  "map_of pd k = Some p \<Longrightarrow> chartRowOf valueType (label k) p \<in> set (buildChartDataRows label pd valueType)"
proof -
  assume p: "map_of pd k = Some p"
  then have "k \<in> set (sort (map fst pd))"
    by (auto dest: map_of_SomeD intro: rev_image_eqI)
  moreover have "chartRowOf valueType (label k) p \<in>
      set (case map_of pd k of None \<Rightarrow> [] | Some q \<Rightarrow> [chartRowOf valueType (label k) q])"
    using p by simp
  ultimately show ?thesis
    unfolding buildChartDataRows_def set_concat set_map by blast
qed

text \<open>
  C8. The cost per conversion and the return on spend that \<^verbatim>\<open>buildRawTabRows\<close> and
  \<^verbatim>\<open>buildChartDataRows\<close> put into the rows of a period are numbers, never the outcome of
  a division by zero: the cost divided by the conversions when the conversions are
  positive and 0 when they are 0; the conversion value divided by the cost when the cost
  is positive and 0 when it is 0. With 4 conversions and a cost of 40 the cost per
  conversion is 10.
\<close>

theorem derived_ratios:
  "(map_of pd k = Some p \<longrightarrow>
      set (rawRowsOf (label k) p) \<subseteq> set (buildRawTabRows label pd) \<and>
      chartRowOf ''cpa'' (label k) p \<in> set (buildChartDataRows label pd ''cpa'') \<and>
      chartRowOf ''roas'' (label k) p \<in> set (buildChartDataRows label pd ''roas'')) \<and>
   rawRowsOf l p =
     [[Txt l, Txt ''Branded'', Val (impressions (branded p)), Val (clicks (branded p)),
       Val (cost (branded p)), Val (conversions (branded p)), Val (conversionsValue (branded p)),
       cpaCell (branded p), roasCell (branded p)],
      [Txt l, Txt ''Non-branded'', Val (impressions (nonBranded p)), Val (clicks (nonBranded p)),
       Val (cost (nonBranded p)), Val (conversions (nonBranded p)),
       Val (conversionsValue (nonBranded p)), cpaCell (nonBranded p), roasCell (nonBranded p)]] \<and>
   chartRowOf ''cpa'' l p = [Txt l, cpaCell (branded p), cpaCell (nonBranded p)] \<and>
   chartRowOf ''roas'' l p = [Txt l, roasCell (branded p), roasCell (nonBranded p)] \<and>
   (conversions b > 0 \<longrightarrow> cpaCell b = Val (cost b / conversions b)) \<and>
   (conversions b = 0 \<longrightarrow> cpaCell b = Val 0) \<and>
   (cost b > 0 \<longrightarrow> roasCell b = Val (conversionsValue b / cost b)) \<and>
   (cost b = 0 \<longrightarrow> roasCell b = Val 0) \<and>
   cpaCell b \<noteq> NonFinite \<and> roasCell b \<noteq> NonFinite"
proof -
  have rows: "map_of pd k = Some p \<longrightarrow>
      set (rawRowsOf (label k) p) \<subseteq> set (buildRawTabRows label pd) \<and>
      chartRowOf ''cpa'' (label k) p \<in> set (buildChartDataRows label pd ''cpa'') \<and>
      chartRowOf ''roas'' (label k) p \<in> set (buildChartDataRows label pd ''roas'')"
    using rawRowsOf_in_buildRawTabRows chartRowOf_in_buildChartDataRows by blast
  have raw: "rawRowsOf l p =
     [[Txt l, Txt ''Branded'', Val (impressions (branded p)), Val (clicks (branded p)),
       Val (cost (branded p)), Val (conversions (branded p)), Val (conversionsValue (branded p)),
       cpaCell (branded p), roasCell (branded p)],
      [Txt l, Txt ''Non-branded'', Val (impressions (nonBranded p)), Val (clicks (nonBranded p)),
       Val (cost (nonBranded p)), Val (conversions (nonBranded p)),
       Val (conversionsValue (nonBranded p)), cpaCell (nonBranded p), roasCell (nonBranded p)]]"
    by (simp add: rawRowsOf_def Let_def cpaCell_def roasCell_def)
  have chart: "chartRowOf ''cpa'' l p = [Txt l, cpaCell (branded p), cpaCell (nonBranded p)]"
    "chartRowOf ''roas'' l p = [Txt l, roasCell (branded p), roasCell (nonBranded p)]"
    by (simp_all add: chartRowOf_def Let_def cpaCell_def roasCell_def)
  have vals: "conversions b > 0 \<longrightarrow> cpaCell b = Val (cost b / conversions b)"
    "conversions b = 0 \<longrightarrow> cpaCell b = Val 0"
    "cost b > 0 \<longrightarrow> roasCell b = Val (conversionsValue b / cost b)"
    "cost b = 0 \<longrightarrow> roasCell b = Val 0"
    "cpaCell b \<noteq> NonFinite" "roasCell b \<noteq> NonFinite"
    by (auto simp: cpaCell_def roasCell_def quotient_def)
  show ?thesis
    using rows raw chart vals by blast
qed

theorem derived_ratios_witness:
  "map_of [(''2024-01'', ratioExample)] ''2024-01'' = Some ratioExample \<and>
   [Txt ''2024-01'', Txt ''Branded'', Val 100, Val 10, Val 40, Val 4, Val 20, Val 10, Val (1 / 2)]
     \<in> set (buildRawTabRows (\<lambda>k. k) [(''2024-01'', ratioExample)]) \<and>
   [Txt ''2024-01'', Val 10, Val 0] \<in> set (buildChartDataRows (\<lambda>k. k) [(''2024-01'', ratioExample)] ''cpa'') \<and>
   conversions (branded ratioExample) = 4 \<and> cost (branded ratioExample) = 40 \<and>
   cpaCell (branded ratioExample) = Val 10 \<and>
   conversions (nonBranded ratioExample) = 0 \<and> cpaCell (nonBranded ratioExample) = Val 0 \<and>
   cost (nonBranded ratioExample) = 0 \<and> roasCell (nonBranded ratioExample) = Val 0 \<and>
   roasCell (branded ratioExample) = Val (1 / 2)"
proof -
  note t = derived_ratios [where pd = "[(''2024-01'', ratioExample)]" and k = "''2024-01''"
      and p = ratioExample and label = "\<lambda>k. k" and l = "''2024-01''"]
  have f: "conversions (branded ratioExample) = 4" "cost (branded ratioExample) = 40"
    "conversionsValue (branded ratioExample) = 20"
    "conversions (nonBranded ratioExample) = 0" "cost (nonBranded ratioExample) = 0"
    "impressions (branded ratioExample) = 100" "clicks (branded ratioExample) = 10"
    by (simp_all add: ratioExample_def emptyMetrics_def)
  have c: "cpaCell (branded ratioExample) = Val 10" "roasCell (branded ratioExample) = Val (1 / 2)"
    using t [of "branded ratioExample"] by (simp_all add: f)
  have n: "cpaCell (nonBranded ratioExample) = Val 0" "roasCell (nonBranded ratioExample) = Val 0"
    using t [of "nonBranded ratioExample"] by (simp_all add: f)
  have m: "map_of [(''2024-01'', ratioExample)] ''2024-01'' = Some ratioExample"
    by simp
  have r: "[Txt ''2024-01'', Txt ''Branded'', Val 100, Val 10, Val 40, Val 4, Val 20, Val 10, Val (1 / 2)]
     \<in> set (buildRawTabRows (\<lambda>k. k) [(''2024-01'', ratioExample)])"
    using t [of emptyMetrics] m by (auto simp: f c)
  have ch: "[Txt ''2024-01'', Val 10, Val 0] \<in> set (buildChartDataRows (\<lambda>k. k) [(''2024-01'', ratioExample)] ''cpa'')"
    using t [of emptyMetrics] m by (auto simp: c n)
  show ?thesis
    using m r ch f c n by blast
qed

section \<open>The merge and the blank component\<close>

lemma blank_mergeTotals: "blank (mergeTotals target source) = blank target"
  by (simp add: mergeTotals_def)

lemma mergeTotals_source_blank: "mergeTotals target (source\<lparr>blank := b\<rparr>) = mergeTotals target source"
  by (simp add: mergeTotals_def)

lemma mergePeriodEntry_source_blank:
  "mergePeriodEntry (k, p\<lparr>blank := b\<rparr>) target = mergePeriodEntry (k, p) target"
  by (simp add: mergePeriodEntry_def mergeTotals_source_blank)

lemma mergePeriodData_source_blank:
  "mergePeriodData target (map (\<lambda>(k, p). (k, p\<lparr>blank := f k p\<rparr>)) source) =
   mergePeriodData target source"
  unfolding mergePeriodData_def
  by (induction source arbitrary: target) (auto simp: mergePeriodEntry_source_blank)

lemma blankAt_mergePeriodEntry: "blankAt (mergePeriodEntry e target) k = blankAt target k"
  by (auto simp: blankAt_def map_of_mergePeriodEntry blank_mergeTotals emptyPeriodData_def
      split: option.splits)

lemma blankAt_mergePeriodData: "blankAt (mergePeriodData target source) k = blankAt target k"
  unfolding mergePeriodData_def
  by (induction source arbitrary: target) (auto simp: blankAt_mergePeriodEntry)

lemma combined_has_no_blank:
  "blank (totals (combined (buildViews cfg a b c d))) = None \<and>
   blankAt (periodData (combined (buildViews cfg a b c d))) k = None"
proof
  show "blank (totals (combined (buildViews cfg a b c d))) = None"
    by (simp add: buildViews_def blank_mergeTotals emptyPeriodData_def)
next
  have "blankAt [] k = None"
    by (simp add: blankAt_def)
  then show "blankAt (periodData (combined (buildViews cfg a b c d))) k = None"
    by (simp add: buildViews_def blankAt_mergePeriodData)
qed

lemma main_views:
  "snd (main s2n formatDate label cfg w startDate endDate) = Inr v \<Longrightarrow>
   \<exists>a b c d. v = buildViews cfg a b c d"
  by (auto simp: main_def Let_def split: sum.splits)

lemma main_succeeds:
  "buildBrandPatterns (BRAND_TOKENS cfg) = Inr pats \<Longrightarrow> getSheetId (SHEET_URL cfg) = Inr i \<Longrightarrow>
   snd (main s2n formatDate label cfg w startDate endDate) =
     Inr (buildViews cfg
       (processSearchTermView s2n cfg pats (searchTermViewRows w ''SEARCH''))
       (processSearchTermView s2n cfg pats (searchTermViewRows w ''SHOPPING''))
       (processCampaignSearchTermView s2n cfg pats (campaignSearchTermViewRows w))
       (if INCLUDE_PMAX_CATEGORIES cfg
        then Some (processCampaignSearchTermInsight s2n formatDate cfg pats w startDate endDate)
        else None))"
  by (simp add: main_def Let_def)

text \<open>
  C10. \<^verbatim>\<open>mergeTotals\<close> and \<^verbatim>\<open>mergePeriodData\<close> read and write the branded and the
  non-branded component only: the blank component of the target is as it was (also
  absent, for a period the merge creates), and the result does not depend on the blank
  components of the source. The combined view that \<^verbatim>\<open>main\<close> builds therefore has no
  blank component in its totals or in any of its periods.
\<close>

theorem merge_leaves_blank_alone:
  "blank (mergeTotals target source) = blank target \<and>
   mergeTotals target (source\<lparr>blank := b\<rparr>) = mergeTotals target source \<and>
   blankAt (mergePeriodData pt ps) k = blankAt pt k \<and>
   mergePeriodData pt (map (\<lambda>(k, p). (k, p\<lparr>blank := f k p\<rparr>)) ps) = mergePeriodData pt ps \<and>
   (snd (main s2n formatDate label cfg w startDate endDate) = Inr v \<longrightarrow>
      blank (totals (combined v)) = None \<and> blankAt (periodData (combined v)) k = None)"
  using blank_mergeTotals mergeTotals_source_blank blankAt_mergePeriodData
    mergePeriodData_source_blank combined_has_no_blank main_views
  by metis

lemma buildBrandPatterns_example: "buildBrandPatterns (BRAND_TOKENS exampleConfig) = Inr brandPatterns"
  by (simp add: exampleConfig_def buildBrandPatterns_def RegExp_def replaceDigits_def
      replaceSeparators_def digits_def metaChars_def brandPatterns_def)

lemma getSheetId_example:
  "getSheetId (SHEET_URL exampleConfig) = Inr ''1ysIP5kMNCuBI5uVzf6V-Xw6knCCSGMCEXw1B5i8zURY''"
  by (simp add: exampleConfig_def getSheetId_def idChars_def)

theorem merge_leaves_blank_alone_witness:
  "snd (main integerLiteral (\<lambda>d p. p) (\<lambda>k. k) exampleConfig exampleReports 19737 19792) = Inr exampleViews \<and>
   blank (totals (combined exampleViews)) = None \<and>
   blankAt (periodData (combined exampleViews)) ''2024-01'' = None"
proof -
  have run: "snd (main integerLiteral (\<lambda>d p. p) (\<lambda>k. k) exampleConfig exampleReports 19737 19792) =
      Inr exampleViews"
    unfolding main_succeeds [OF buildBrandPatterns_example getSheetId_example] exampleViews_def
    by (simp add: exampleReports_def exampleConfig_def)
  from merge_leaves_blank_alone [where ?s2n = integerLiteral and formatDate = "\<lambda>d p. p"
      and label = "\<lambda>k. k" and cfg = exampleConfig and w = exampleReports and startDate = 19737
      and endDate = 19792 and v = exampleViews and k = "''2024-01''"] run
  show ?thesis by blast
qed

section \<open>An unparseable sheet identifier\<close>

lemma main_invalid_sheet:
  "buildBrandPatterns (BRAND_TOKENS cfg) = Inr pats \<Longrightarrow> getSheetId (SHEET_URL cfg) = Inl e \<Longrightarrow>
   main s2n formatDate label cfg w startDate endDate =
     ([Search (SearchTermViewQuery ''SEARCH''), Search (SearchTermViewQuery ''SHOPPING''),
       Search CampaignSearchTermViewQuery] @
      (if INCLUDE_PMAX_CATEGORIES cfg
       then map Search (insightQueries formatDate cfg w startDate endDate) else []),
      Inl e)"
  by (simp add: main_def Let_def)

lemma main_invalid_pattern:
  "buildBrandPatterns (BRAND_TOKENS cfg) = Inl e \<Longrightarrow>
   main s2n formatDate label cfg w startDate endDate = ([], Inl e)"
  by (simp add: main_def)

lemma getSheetId_invalid_example: "getSheetId ''sheets/abc'' = Inl InvalidSheet"
  by (simp add: getSheetId_def)

lemma badSheetConfig_fields:
  "SHEET_URL badSheetConfig = ''sheets/abc''"
  "BRAND_TOKENS badSheetConfig = BRAND_TOKENS exampleConfig"
  "INCLUDE_PMAX_CATEGORIES badSheetConfig = True"
  by (simp_all add: badSheetConfig_def exampleConfig_def)

text \<open>C4, as stated, fails: \<^verbatim>\<open>main\<close> calls \<^verbatim>\<open>getSheetId\<close> after the reports have been
  read. With the identifier \<^verbatim>\<open>sheets/abc\<close>, which does not parse, the first effect of the
  run is the query of the Search channel.\<close>

theorem invalid_sheet_after_queries_counterexample:
  "getSheetId (SHEET_URL badSheetConfig) = Inl InvalidSheet \<and>
   hd (fst (main integerLiteral (\<lambda>d p. p) (\<lambda>k. k) badSheetConfig exampleReports 19737 19792)) =
     Search (SearchTermViewQuery ''SEARCH'')"
proof -
  have s: "getSheetId (SHEET_URL badSheetConfig) = Inl InvalidSheet"
    by (simp add: badSheetConfig_fields getSheetId_invalid_example)
  have p: "buildBrandPatterns (BRAND_TOKENS badSheetConfig) = Inr brandPatterns"
    by (simp add: badSheetConfig_fields buildBrandPatterns_example)
  show ?thesis
    unfolding main_invalid_sheet [OF p s] using s by simp
qed

text \<open>
  C4, amended. A sheet identifier that does not parse is fatal: \<^verbatim>\<open>main\<close> ends with the
  exception of \<^verbatim>\<open>getSheetId\<close> (or with an earlier one of the pattern construction), and
  the spreadsheet is neither opened nor written: every effect of the run is a report
  query. The exception is raised after the data has been fetched: when the patterns
  compile, the run has sent the queries of the Search, the Shopping and the Performance
  Max channel and, if the categories are enabled, the campaign listing and the category
  queries.
\<close>

theorem invalid_sheet_is_fatal:
  "getSheetId (SHEET_URL cfg) = Inl e \<longrightarrow>
     (\<exists>e'. snd (main s2n formatDate label cfg w startDate endDate) = Inl e') \<and>
     list_all isSearch (fst (main s2n formatDate label cfg w startDate endDate)) \<and>
     (buildBrandPatterns (BRAND_TOKENS cfg) = Inr pats \<longrightarrow>
        snd (main s2n formatDate label cfg w startDate endDate) = Inl e \<and>
        fst (main s2n formatDate label cfg w startDate endDate) =
          [Search (SearchTermViewQuery ''SEARCH''), Search (SearchTermViewQuery ''SHOPPING''),
           Search CampaignSearchTermViewQuery] @
          (if INCLUDE_PMAX_CATEGORIES cfg
           then map Search (insightQueries formatDate cfg w startDate endDate) else []))"
proof (intro impI)
  assume s: "getSheetId (SHEET_URL cfg) = Inl e"
  show "(\<exists>e'. snd (main s2n formatDate label cfg w startDate endDate) = Inl e') \<and>
     list_all isSearch (fst (main s2n formatDate label cfg w startDate endDate)) \<and>
     (buildBrandPatterns (BRAND_TOKENS cfg) = Inr pats \<longrightarrow>
        snd (main s2n formatDate label cfg w startDate endDate) = Inl e \<and>
        fst (main s2n formatDate label cfg w startDate endDate) =
          [Search (SearchTermViewQuery ''SEARCH''), Search (SearchTermViewQuery ''SHOPPING''),
           Search CampaignSearchTermViewQuery] @
          (if INCLUDE_PMAX_CATEGORIES cfg
           then map Search (insightQueries formatDate cfg w startDate endDate) else []))"
  proof (cases "buildBrandPatterns (BRAND_TOKENS cfg)")
    case (Inl e0)
    show ?thesis
      unfolding main_invalid_pattern [OF Inl] using Inl by simp
  next
    case (Inr ps)
    show ?thesis
      unfolding main_invalid_sheet [OF Inr s] using Inr
      by (auto simp: isSearch_def list_all_iff)
  qed
qed

theorem invalid_sheet_is_fatal_witness:
  "getSheetId (SHEET_URL badSheetConfig) = Inl InvalidSheet \<and>
   buildBrandPatterns (BRAND_TOKENS badSheetConfig) = Inr brandPatterns \<and>
   snd (main integerLiteral (\<lambda>d p. p) (\<lambda>k. k) badSheetConfig exampleReports 19737 19792) =
     Inl InvalidSheet \<and>
   list_all isSearch (fst (main integerLiteral (\<lambda>d p. p) (\<lambda>k. k) badSheetConfig exampleReports 19737 19792))"
proof -
  have s: "getSheetId (SHEET_URL badSheetConfig) = Inl InvalidSheet"
    by (simp add: badSheetConfig_fields getSheetId_invalid_example)
  have p: "buildBrandPatterns (BRAND_TOKENS badSheetConfig) = Inr brandPatterns"
    by (simp add: badSheetConfig_fields buildBrandPatterns_example)
  from invalid_sheet_is_fatal [where cfg = badSheetConfig and e = InvalidSheet
      and pats = brandPatterns and ?s2n = integerLiteral and formatDate = "\<lambda>d p. p"
      and label = "\<lambda>k. k" and w = exampleReports and startDate = 19737 and endDate = 19792] s p
  show ?thesis by blast
qed

section \<open>Category rows\<close>

lemma updateCategory_Some:
  "slot c b \<noteq> None \<Longrightarrow> \<exists>b'. updateCategory c f b = Some b'"
  by (cases c) (auto simp: updateCategory_def)

lemma trim_Nil: "trim [] = []"
  by (simp add: trim_def)

lemma slot_other:
  "c' \<noteq> CBranded \<Longrightarrow> slot c' (b\<lparr>branded := x\<rparr>) = slot c' b"
  "c' \<noteq> CNonBranded \<Longrightarrow> slot c' (b\<lparr>nonBranded := x\<rparr>) = slot c' b"
  "c' \<noteq> CBlank \<Longrightarrow> slot c' (b\<lparr>blank := y\<rparr>) = slot c' b"
  by (cases c'; simp)+

lemma updateCategory_slot:
  assumes "updateCategory c f b = Some b'"
  shows "slot c b' = map_option f (slot c b)"
    and "\<forall>c'. c' \<noteq> c \<longrightarrow> slot c' b' = slot c' b"
proof -
  have "slot c b' = map_option f (slot c b) \<and> (\<forall>c'. c' \<noteq> c \<longrightarrow> slot c' b' = slot c' b)"
  proof (cases c)
    case CBranded
    with assms have "b' = b\<lparr>branded := f (branded b)\<rparr>"
      by (simp add: updateCategory_def)
    with CBranded show ?thesis
      by (simp add: slot_other)
  next
    case CNonBranded
    with assms have "b' = b\<lparr>nonBranded := f (nonBranded b)\<rparr>"
      by (simp add: updateCategory_def)
    with CNonBranded show ?thesis
      by (simp add: slot_other)
  next
    case CBlank
    with assms obtain x where "blank b = Some x" "b' = b\<lparr>blank := Some (f x)\<rparr>"
      by (auto simp: updateCategory_def split: option.splits)
    with CBlank show ?thesis
      by (simp add: slot_other)
  qed
  then show "slot c b' = map_option f (slot c b)"
    and "\<forall>c'. c' \<noteq> c \<longrightarrow> slot c' b' = slot c' b"
    by simp_all
qed

lemma slot_defined: "blank b \<noteq> None \<Longrightarrow> slot c b \<noteq> None"
  by (cases c) simp_all

lemma updateCategory_blank:
  "updateCategory c f b = Some b' \<Longrightarrow> blank b \<noteq> None \<Longrightarrow> blank b' \<noteq> None"
  by (cases c) (auto simp: updateCategory_def split: option.splits)

lemma bucketAt_blank:
  "list_all (\<lambda>e. blank (snd e) \<noteq> None) pd \<Longrightarrow> blank (bucketAt pd k) \<noteq> None"
  by (auto simp: bucketAt_def emptyPeriodDataWithBlank_def list_all_iff split: option.splits
      dest!: map_of_SomeD)

lemma list_all_update:
  "list_all P pd \<Longrightarrow> P (k, v) \<Longrightarrow> list_all P (AList.update k v pd)"
  by (induction pd) auto

lemma insightRowStep_hasBlank:
  assumes "hasBlank st"
  shows "\<exists>st'. insightRowStep s2n pats k row st = Inr st' \<and> hasBlank st' \<and>
     updateCategory (categoryOf pats (textOf (campaignSearchTermInsight row)))
       (addNoCost (insightMetricsOf s2n (insightMetrics row))) (totals st) = Some (totals st') \<and>
     (\<exists>p'. updateCategory (categoryOf pats (textOf (campaignSearchTermInsight row)))
         (\<lambda>t. addMetrics t (insightMetricsOf s2n (insightMetrics row)))
         (bucketAt (periodData st) k) = Some p' \<and>
       periodData st' = AList.update k p' (periodData st))"
proof -
  let ?c = "categoryOf pats (textOf (campaignSearchTermInsight row))"
  let ?rm = "insightMetricsOf s2n (insightMetrics row)"
  from assms have bt: "blank (totals st) \<noteq> None"
    and bp: "list_all (\<lambda>e. blank (snd e) \<noteq> None) (periodData st)"
    by (simp_all add: hasBlank_def)
  obtain t where t: "updateCategory ?c (addNoCost ?rm) (totals st) = Some t"
    using updateCategory_Some [OF slot_defined [OF bt]] by blast
  obtain p' where p': "updateCategory ?c (\<lambda>t. addMetrics t ?rm) (bucketAt (periodData st) k) = Some p'"
    using updateCategory_Some [OF slot_defined [OF bucketAt_blank [OF bp]]] by blast
  have step: "insightRowStep s2n pats k row st =
      Inr \<lparr>totals = t, periodData = AList.update k p' (periodData st)\<rparr>"
    using t p' by (simp add: insightRowStep_def addRowToPeriodDataWithBlank_def Let_def bucketAt_def)
  have "blank t \<noteq> None"
    using updateCategory_blank [OF t bt] .
  moreover have "blank p' \<noteq> None"
    using updateCategory_blank [OF p' bucketAt_blank [OF bp]] .
  then have "list_all (\<lambda>e. blank (snd e) \<noteq> None) (AList.update k p' (periodData st))"
    using bp by (simp add: list_all_update)
  ultimately have "hasBlank \<lparr>totals = t, periodData = AList.update k p' (periodData st)\<rparr>"
    by (simp add: hasBlank_def)
  with step t p' show ?thesis by simp
qed

lemma insightRows_hasBlank: "hasBlank st \<Longrightarrow> hasBlank (insightRows s2n pats k rows st)"
proof (induction rows arbitrary: st)
  case Nil
  then show ?case by simp
next
  case (Cons row rows)
  from insightRowStep_hasBlank [OF Cons.prems, of s2n pats k row]
  obtain st' where "insightRowStep s2n pats k row st = Inr st'" "hasBlank st'"
    by blast
  then show ?case using Cons.IH by simp
qed

lemma hasBlank_initial: "hasBlank \<lparr>totals = emptyPeriodDataWithBlank, periodData = []\<rparr>"
  by (simp add: hasBlank_def emptyPeriodDataWithBlank_def)

text \<open>The labels of the examples, with the patterns of the configured tokens.\<close>

lemma categoryOf_examples:
  "categoryOf brandPatterns ''foodsisters gift'' = CBranded"
  "categoryOf brandPatterns ''running shoes'' = CNonBranded"
  "categoryOf brandPatterns ''  '' = CBlank"
  "categoryOf brandPatterns [] = CBlank"
  by (simp_all add: categoryOf_def trim_def whiteSpace_def brandPatterns_def canon_def)

text \<open>
  C7. For a row of the category report, the category is blank when the label is absent or
  empty after trimming, otherwise branded when \<^verbatim>\<open>isBranded\<close> holds of the label,
  otherwise non-branded. The metric vector of the row has cost 0 and the coerced
  impressions, clicks, conversions and conversion value of the row. Processing the row in
  a state of \<^verbatim>\<open>processCampaignSearchTermInsight\<close> (the blank component is present
  everywhere, as in its initial state) throws nothing and adds that vector to the slot of
  the row's category, the blank one included, in the totals and in the bucket of the
  period, which is created with three zero vectors when it is missing; no other slot and no
  other period changes, and no cost changes.
\<close>

theorem category_row:
  fixes row :: insightRow and pats :: "regex list" and s2n :: "string \<Rightarrow> jsnum"
  defines "c \<equiv> categoryOf pats (textOf (campaignSearchTermInsight row))"
    and "rm \<equiv> insightMetricsOf s2n (insightMetrics row)"
  shows
  "((campaignSearchTermInsight row = None \<or> campaignSearchTermInsight row = Some None) \<longrightarrow>
      c = CBlank) \<and>
   (campaignSearchTermInsight row = Some (Some l) \<longrightarrow>
      c = (if trim l = [] then CBlank else if isBranded pats (JStr l) then CBranded else CNonBranded)) \<and>
   cost rm = 0 \<and>
   (insightMetrics row = Some m \<longrightarrow>
      impressions rm = orZero (Number s2n (impressionsRaw m)) \<and>
      clicks rm = orZero (Number s2n (clicksRaw m)) \<and>
      conversions rm = orZero (Number s2n (conversionsRaw m)) \<and>
      conversionsValue rm = orZero (Number s2n (conversionsValueRaw m))) \<and>
   hasBlank \<lparr>totals = emptyPeriodDataWithBlank, periodData = []\<rparr> \<and>
   (hasBlank st \<longrightarrow>
      (\<exists>st'. insightRowStep s2n pats k row st = Inr st' \<and> hasBlank st' \<and>
         slot c (totals st') = map_option (addNoCost rm) (slot c (totals st)) \<and>
         (\<forall>c'. c' \<noteq> c \<longrightarrow> slot c' (totals st') = slot c' (totals st)) \<and>
         slot c (bucketAt (periodData st') k) =
           map_option (\<lambda>t. addMetrics t rm) (slot c (bucketAt (periodData st) k)) \<and>
         (\<forall>c'. c' \<noteq> c \<longrightarrow>
            slot c' (bucketAt (periodData st') k) = slot c' (bucketAt (periodData st) k)) \<and>
         map_of (periodData st') k \<noteq> None \<and>
         (\<forall>k'. k' \<noteq> k \<longrightarrow> map_of (periodData st') k' = map_of (periodData st) k'))) \<and>
   addNoCost rm t =
     \<lparr>impressions = impressions t + impressions rm, clicks = clicks t + clicks rm, cost = cost t,
      conversions = conversions t + conversions rm,
      conversionsValue = conversionsValue t + conversionsValue rm\<rparr> \<and>
   addMetrics t rm =
     \<lparr>impressions = impressions t + impressions rm, clicks = clicks t + clicks rm, cost = cost t,
      conversions = conversions t + conversions rm,
      conversionsValue = conversionsValue t + conversionsValue rm\<rparr>"
proof -
  have absent: "(campaignSearchTermInsight row = None \<or> campaignSearchTermInsight row = Some None) \<longrightarrow>
      c = CBlank"
    by (auto simp: c_def categoryOf_def)
  have present: "campaignSearchTermInsight row = Some (Some l) \<longrightarrow>
      c = (if trim l = [] then CBlank else if isBranded pats (JStr l) then CBranded else CNonBranded)"
    by (cases "l = []") (simp_all add: c_def categoryOf_def trim_Nil)
  have cost0: "cost rm = 0"
    by (simp add: rm_def insightMetricsOf_def Let_def)
  have fields: "insightMetrics row = Some m \<longrightarrow>
      impressions rm = orZero (Number s2n (impressionsRaw m)) \<and>
      clicks rm = orZero (Number s2n (clicksRaw m)) \<and>
      conversions rm = orZero (Number s2n (conversionsRaw m)) \<and>
      conversionsValue rm = orZero (Number s2n (conversionsValueRaw m))"
    by (simp add: rm_def insightMetricsOf_def)
  have step: "hasBlank st \<longrightarrow>
      (\<exists>st'. insightRowStep s2n pats k row st = Inr st' \<and> hasBlank st' \<and>
         slot c (totals st') = map_option (addNoCost rm) (slot c (totals st)) \<and>
         (\<forall>c'. c' \<noteq> c \<longrightarrow> slot c' (totals st') = slot c' (totals st)) \<and>
         slot c (bucketAt (periodData st') k) =
           map_option (\<lambda>t. addMetrics t rm) (slot c (bucketAt (periodData st) k)) \<and>
         (\<forall>c'. c' \<noteq> c \<longrightarrow>
            slot c' (bucketAt (periodData st') k) = slot c' (bucketAt (periodData st) k)) \<and>
         map_of (periodData st') k \<noteq> None \<and>
         (\<forall>k'. k' \<noteq> k \<longrightarrow> map_of (periodData st') k' = map_of (periodData st) k'))"
  proof
    assume "hasBlank st"
    from insightRowStep_hasBlank [OF this, of s2n pats k row]
    obtain st' p' where st': "insightRowStep s2n pats k row st = Inr st'" "hasBlank st'"
      and t: "updateCategory c (addNoCost rm) (totals st) = Some (totals st')"
      and p': "updateCategory c (\<lambda>t. addMetrics t rm) (bucketAt (periodData st) k) = Some p'"
      and pd: "periodData st' = AList.update k p' (periodData st)"
      unfolding c_def rm_def by blast
    have at: "bucketAt (periodData st') k = p'"
      by (simp add: pd bucketAt_def update_conv')
    have other: "\<forall>k'. k' \<noteq> k \<longrightarrow> map_of (periodData st') k' = map_of (periodData st) k'"
      by (simp add: pd update_conv')
    have here: "map_of (periodData st') k \<noteq> None"
      by (simp add: pd update_conv')
    show "\<exists>st'. insightRowStep s2n pats k row st = Inr st' \<and> hasBlank st' \<and>
         slot c (totals st') = map_option (addNoCost rm) (slot c (totals st)) \<and>
         (\<forall>c'. c' \<noteq> c \<longrightarrow> slot c' (totals st') = slot c' (totals st)) \<and>
         slot c (bucketAt (periodData st') k) =
           map_option (\<lambda>t. addMetrics t rm) (slot c (bucketAt (periodData st) k)) \<and>
         (\<forall>c'. c' \<noteq> c \<longrightarrow>
            slot c' (bucketAt (periodData st') k) = slot c' (bucketAt (periodData st) k)) \<and>
         map_of (periodData st') k \<noteq> None \<and>
         (\<forall>k'. k' \<noteq> k \<longrightarrow> map_of (periodData st') k' = map_of (periodData st) k')"
      using st' updateCategory_slot [OF t] updateCategory_slot [OF p', folded at] other here
      by (intro exI [of _ st'] conjI) assumption+
  qed
  have add1: "addNoCost rm t =
     \<lparr>impressions = impressions t + impressions rm, clicks = clicks t + clicks rm, cost = cost t,
      conversions = conversions t + conversions rm,
      conversionsValue = conversionsValue t + conversionsValue rm\<rparr>"
    by (simp add: addNoCost_def)
  have add2: "addMetrics t rm =
     \<lparr>impressions = impressions t + impressions rm, clicks = clicks t + clicks rm, cost = cost t,
      conversions = conversions t + conversions rm,
      conversionsValue = conversionsValue t + conversionsValue rm\<rparr>"
    by (simp add: addMetrics_def cost0)
  from absent present cost0 fields hasBlank_initial step add1 add2 show ?thesis
    by (intro conjI) assumption+
qed

theorem category_row_witness:
  "campaignSearchTermInsight blankCategoryRow = Some (Some ''  '') \<and> trim ''  '' = [] \<and>
   hasBlank \<lparr>totals = emptyPeriodDataWithBlank, periodData = []\<rparr> \<and>
   (\<exists>st'. insightRowStep integerLiteral brandPatterns ''2024-01'' blankCategoryRow
            \<lparr>totals = emptyPeriodDataWithBlank, periodData = []\<rparr> = Inr st' \<and>
      slot CBlank (totals st') = Some blankCategoryMetrics \<and>
      slot CBlank (bucketAt (periodData st') ''2024-01'') = Some blankCategoryMetrics \<and>
      slot CBranded (totals st') = Some emptyMetrics)"
proof -
  let ?st = "\<lparr>totals = emptyPeriodDataWithBlank, periodData = []\<rparr>"
  note t = category_row [where row = blankCategoryRow and pats = brandPatterns
      and ?s2n = integerLiteral and l = "''  ''" and st = ?st and k = "''2024-01''"
      and t = emptyMetrics]
  have lbl: "campaignSearchTermInsight blankCategoryRow = Some (Some ''  '')"
    by (simp add: blankCategoryRow_def)
  have tr: "trim ''  '' = []"
    by (simp add: trim_def whiteSpace_def)
  have c: "categoryOf brandPatterns (textOf (campaignSearchTermInsight blankCategoryRow)) = CBlank"
    using t lbl tr by simp
  have hb: "hasBlank ?st"
    using t by blast
  have rm: "insightMetricsOf integerLiteral (insightMetrics blankCategoryRow) = blankCategoryMetrics"
    by (simp add: insightMetricsOf_def blankCategoryRow_def integerLiteral_def digits_def
        blankCategoryMetrics_def)
  have add: "addNoCost blankCategoryMetrics emptyMetrics = blankCategoryMetrics"
    "addMetrics emptyMetrics blankCategoryMetrics = blankCategoryMetrics"
    by (simp_all add: addNoCost_def addMetrics_def blankCategoryMetrics_def emptyMetrics_def)
  have init: "slot CBlank (totals ?st) = Some emptyMetrics"
    "slot CBlank (bucketAt (periodData ?st) ''2024-01'') = Some emptyMetrics"
    "slot CBranded (totals ?st) = Some emptyMetrics"
    by (simp_all add: emptyPeriodDataWithBlank_def bucketAt_def)
  from t hb obtain st' where
    st': "insightRowStep integerLiteral brandPatterns ''2024-01'' blankCategoryRow ?st = Inr st'"
    and s1: "slot (categoryOf brandPatterns (textOf (campaignSearchTermInsight blankCategoryRow)))
        (totals st') =
      map_option (addNoCost (insightMetricsOf integerLiteral (insightMetrics blankCategoryRow)))
        (slot (categoryOf brandPatterns (textOf (campaignSearchTermInsight blankCategoryRow)))
           (totals ?st))"
    and s2: "\<forall>c'. c' \<noteq> categoryOf brandPatterns (textOf (campaignSearchTermInsight blankCategoryRow))
        \<longrightarrow> slot c' (totals st') = slot c' (totals ?st)"
    and s3: "slot (categoryOf brandPatterns (textOf (campaignSearchTermInsight blankCategoryRow)))
        (bucketAt (periodData st') ''2024-01'') =
      map_option (\<lambda>t. addMetrics t (insightMetricsOf integerLiteral (insightMetrics blankCategoryRow)))
        (slot (categoryOf brandPatterns (textOf (campaignSearchTermInsight blankCategoryRow)))
           (bucketAt (periodData ?st) ''2024-01''))"
    by blast
  have r1: "slot CBlank (totals st') = Some blankCategoryMetrics"
    using s1 unfolding c rm init by (simp add: add)
  have r2: "slot CBlank (bucketAt (periodData st') ''2024-01'') = Some blankCategoryMetrics"
    using s3 unfolding c rm init by (simp add: add)
  have "slot CBranded (totals st') = slot CBranded (totals ?st)"
    using s2 unfolding c by blast
  then have r3: "slot CBranded (totals st') = Some emptyMetrics"
    unfolding init .
  from lbl tr hb st' r1 r2 r3 show ?thesis by blast
qed

section \<open>Batches and the order of the rows\<close>




























section \<open>The period windows\<close>

subsection \<open>Weeks\<close>

lemma weekLoop_unfold:
  "weekLoop current endDate =
     (if current \<le> endDate then
        \<lparr>key = current, periodStart = current,
         periodEnd = (if current + 6 > endDate then endDate else current + 6)\<rparr>
        # weekLoop (current + 7) endDate
      else [])"
  by (subst weekLoop.simps) (simp add: setDate_shift Let_def)





lemma getPeriodRanges_week:
  "TIME_GRANULARITY cfg = ''week'' \<Longrightarrow>
   getPeriodRanges cfg startDate endDate = weekLoop (mondayOnOrBefore startDate) endDate"
proof -
  assume w: "TIME_GRANULARITY cfg = ''week''"
  have "startDate + (if getDay startDate = 0 then - 6 else 1 - getDay startDate) =
      mondayOnOrBefore startDate"
    unfolding getDay_def mondayOnOrBefore_def by presburger
  with w show ?thesis
    by (simp add: getPeriodRanges_def Let_def setDate_shift)
qed

subsection \<open>Months\<close>

lemma monthStartDay_mono_nat: "monthStartDay mi + 28 * int n \<le> monthStartDay (mi + int n)"
proof (induction n)
  case 0
  then show ?case by simp
next
  case (Suc n)
  have e: "mi + int (Suc n) = (mi + int n) + 1"
    by simp
  show ?case
    unfolding e monthStartDay_next
    using Suc monthLength_bounds [of "mi + int n"] by simp
qed

lemma monthStartDay_less: "mi < mj \<Longrightarrow> monthStartDay mi < monthStartDay mj"
proof -
  assume "mi < mj"
  then obtain n :: nat where n: "mj = mi + int n" "0 < n"
    by (metis zless_iff_Suc_zadd zero_less_Suc)
  from monthStartDay_mono_nat [of mi n] n show ?thesis by simp
qed

lemma monthStartDay_le: "mi \<le> mj \<Longrightarrow> monthStartDay mi \<le> monthStartDay mj"
  using monthStartDay_less [of mi mj] by (cases "mi = mj") auto

lemma month_bounds:
  "monthStartDay (monthIndex d) \<le> d \<and> d < monthStartDay (monthIndex d + 1)"
  using date_decompose [of d] getDate_bounds [of d] by (simp add: monthStartDay_next)

lemma monthIndex_unique:
  assumes "monthStartDay mi \<le> d" "d < monthStartDay (mi + 1)"
  shows "monthIndex d = mi"
proof (rule ccontr)
  assume ne: "monthIndex d \<noteq> mi"
  show False
  proof (cases "monthIndex d < mi")
    case True
    then have "monthStartDay (monthIndex d + 1) \<le> monthStartDay mi"
      by (intro monthStartDay_le) simp
    with month_bounds [of d] assms show False by simp
  next
    case False
    with ne have "monthStartDay (mi + 1) \<le> monthStartDay (monthIndex d)"
      by (intro monthStartDay_le) simp
    with month_bounds [of d] assms show False by simp
  qed
qed

lemma monthIndex_monthStartDay: "monthIndex (monthStartDay mi) = mi"
  using monthLength_bounds [of mi] by (intro monthIndex_unique) (simp_all add: monthStartDay_next)


lemma monthLoop_unfold:
  "monthLoop (monthStartDay mi) startDate endDate =
     (if monthStartDay mi \<le> endDate then
        \<lparr>key = monthStartDay mi,
         periodStart = (if monthStartDay mi < startDate then startDate else monthStartDay mi),
         periodEnd = (if monthStartDay (mi + 1) - 1 > endDate then endDate
                      else monthStartDay (mi + 1) - 1)\<rparr>
        # monthLoop (monthStartDay (mi + 1)) startDate endDate
      else [])"
proof -
  have idx: "getFullYear (monthStartDay mi) * 12 + (getMonth (monthStartDay mi) + 1) = mi + 1"
    using year_month_index [of "monthStartDay mi"] by (simp add: monthIndex_monthStartDay)
  have next_month: "setMonth (monthStartDay mi) (getMonth (monthStartDay mi) + 1) = monthStartDay (mi + 1)"
    by (simp add: setMonth_next monthIndex_monthStartDay monthStartDay_next)
  have month_end: "newDate (getFullYear (monthStartDay mi)) (getMonth (monthStartDay mi) + 1) 0 =
      monthStartDay (mi + 1) - 1"
    unfolding newDate_def idx by simp
  show ?thesis
    by (subst monthLoop.simps) (simp add: Let_def next_month month_end)
qed



lemma getPeriodRanges_month:
  "TIME_GRANULARITY cfg \<noteq> ''week'' \<Longrightarrow>
   getPeriodRanges cfg startDate endDate =
     monthLoop (monthStartDay (monthIndex startDate)) startDate endDate"
  by (simp add: getPeriodRanges_def newDate_def year_month_index)

lemma granularity_examples:
  "TIME_GRANULARITY weekConfig = ''week''" "TIME_GRANULARITY exampleConfig \<noteq> ''week''"
  by (simp_all add: weekConfig_def exampleConfig_def)

lemma monday_example: "mondayOnOrBefore 19732 = 19730"
  by (simp add: mondayOnOrBefore_def getDay_def)




section \<open>The examples of the specification\<close>

lemma matcher_examples:
  "isBranded brandPatterns (JStr ''FoodSisters discount'')"
  "\<not> isBranded brandPatterns (JStr ''sister gift'')"
  "\<not> isBranded brandPatterns (JStr [])"
  "\<not> isBranded brandPatterns JNull"
  by (simp_all add: brandPatterns_def canon_def)

text \<open>The examples of the specification: day 19737 is 2024-01-15, day 19753 is 2024-01-31,
  day 19782 is 2024-02-29 and day 19792 is 2024-03-10.\<close>

lemma monthStartDay_2024:
  "monthStartDay 24288 = 19723" "monthStartDay 24289 = 19754" "monthStartDay 24290 = 19783"
  "monthStartDay 24291 = 19814"
  by code_simp+

lemma monthly_example:
  "getPeriodRanges exampleConfig 19737 19792 =
     [\<lparr>key = 19723, periodStart = 19737, periodEnd = 19753\<rparr>,
      \<lparr>key = 19754, periodStart = 19754, periodEnd = 19782\<rparr>,
      \<lparr>key = 19783, periodStart = 19783, periodEnd = 19792\<rparr>]"
proof -
  have mi: "monthIndex 19737 = 24288"
    by (rule monthIndex_unique) (simp_all add: monthStartDay_2024)
  have a: "monthLoop (monthStartDay 24291) 19737 19792 = []"
    by (subst monthLoop_unfold) (simp add: monthStartDay_2024)
  have b: "monthLoop (monthStartDay 24290) 19737 19792 =
      [\<lparr>key = 19783, periodStart = 19783, periodEnd = 19792\<rparr>]"
    using a by (subst monthLoop_unfold) (simp add: monthStartDay_2024)
  have c: "monthLoop (monthStartDay 24289) 19737 19792 =
      [\<lparr>key = 19754, periodStart = 19754, periodEnd = 19782\<rparr>,
       \<lparr>key = 19783, periodStart = 19783, periodEnd = 19792\<rparr>]"
    using b by (subst monthLoop_unfold) (simp add: monthStartDay_2024)
  show ?thesis
    unfolding getPeriodRanges_month [OF granularity_examples(2)] mi
    using c by (subst monthLoop_unfold) (simp add: monthStartDay_2024)
qed

lemma weekly_example:
  "getPeriodRanges weekConfig 19732 19742 =
     [\<lparr>key = 19730, periodStart = 19730, periodEnd = 19736\<rparr>,
      \<lparr>key = 19737, periodStart = 19737, periodEnd = 19742\<rparr>]"
proof -
  have a: "weekLoop 19744 19742 = []"
    by (subst weekLoop_unfold) simp
  have b: "weekLoop 19737 19742 = [\<lparr>key = 19737, periodStart = 19737, periodEnd = 19742\<rparr>]"
    using a by (subst weekLoop_unfold) simp
  show ?thesis
    unfolding getPeriodRanges_week [OF granularity_examples(1)] monday_example
    using b by (subst weekLoop_unfold) simp
qed

lemma scenario_example:
  "processSearchTermView integerLiteral exampleConfig brandPatterns scenarioRows =
  \<lparr>totals = \<lparr>branded = \<lparr>impressions = 150, clicks = 15, cost = 15 / 2, conversions = 1, conversionsValue = 20\<rparr>,
             nonBranded = \<lparr>impressions = 200, clicks = 20, cost = 10, conversions = 2, conversionsValue = 40\<rparr>,
             blank = None\<rparr>,
   periodData = [(''2024-01'', \<lparr>branded = \<lparr>impressions = 100, clicks = 10, cost = 5, conversions = 1, conversionsValue = 20\<rparr>,
             nonBranded = \<lparr>impressions = 200, clicks = 20, cost = 10, conversions = 2, conversionsValue = 40\<rparr>,
             blank = None\<rparr>),
      (''2024-02'', \<lparr>branded = \<lparr>impressions = 50, clicks = 5, cost = 5 / 2, conversions = 0, conversionsValue = 0\<rparr>,
             nonBranded = emptyMetrics, blank = None\<rparr>)]\<rparr>"
  by (simp add: processSearchTermView_def searchTermRow_def scenarioRows_def mkRow_def
      exampleConfig_def brandPatterns_def periodKeyOf_def rowMetricsOf_def integerLiteral_def
      digits_def canon_def addRowToTotals_def addRowToPeriodData_def addMetrics_def
      emptyResult_def emptyPeriodData_def emptyMetrics_def Let_def)

end
